theory Spec2Isabelle
  imports Complex_Main "HOL-Library.Log_Nat" "HOL-Library.Multiset"
begin

section \<open>JavaScript numbers\<close>

text \<open>
  The engine computes its scores with JavaScript numbers, that is IEEE 754 binary64
  values under round-to-nearest, ties-to-even. A finite number is modelled by the rational
  it denotes; every arithmetic operation computes the exact rational result and rounds it
  to a 53-bit significand. The exponent range is not bounded: all values of the engine
  are zero or lie far inside the normal range, where the two agree. A decimal literal
  of the source such as \<^verbatim>\<open>0.8\<close> is the rounding of that decimal, \<open>tenths 8\<close>.
\<close>

type_synonym number = rat

definition expo :: "rat \<Rightarrow> int" where
  \<comment> \<open>the binary exponent: \<open>2 powi expo x \<le> \<bar>x\<bar> < 2 powi (expo x + 1)\<close>\<close>
  "expo x = (let (p, q) = quotient_of \<bar>x\<bar>; d = bitlen p - bitlen q
             in if 2 powi d \<le> \<bar>x\<bar> then d else d - 1)"

definition rne :: "rat \<Rightarrow> int" where
  \<comment> \<open>round to the nearest integer, ties to even\<close>
  "rne y = (let f = \<lfloor>y\<rfloor>; r = y - of_int f
            in if r < 1/2 then f else if 1/2 < r then f + 1
               else if even f then f else f + 1)"

definition rnd :: "rat \<Rightarrow> number" where
  "rnd x = (if x = 0 then 0
            else let u = 2 powi (expo x - 52) in of_int (rne (x / u)) * u)"

definition tenths :: "nat \<Rightarrow> number" where
  \<comment> \<open>the decimal literals of the source: \<open>tenths 8\<close> is \<^verbatim>\<open>0.8\<close>\<close>
  "tenths m = rnd (of_nat m / 10)"

definition fadd :: "number \<Rightarrow> number \<Rightarrow> number" where
  "fadd a b = rnd (a + b)"

definition fsub :: "number \<Rightarrow> number \<Rightarrow> number" where
  "fsub a b = rnd (a - b)"

definition fmul :: "number \<Rightarrow> number \<Rightarrow> number" where
  "fmul a b = rnd (a * b)"

definition fdiv :: "number \<Rightarrow> number \<Rightarrow> number" where
  "fdiv a b = rnd (a / b)"

section \<open>JavaScript strings and arrays\<close>

text \<open>
  Strings are lists of characters, the bytes of the UTF-8 text. The needles the engine
  searches for are ASCII, and an ASCII text occurs in a string exactly when its bytes
  occur in the bytes of the string.

  \<^verbatim>\<open>String.prototype.toLowerCase\<close> follows the Unicode case tables, which are
  not part of the source: every function that calls it takes it as its first argument,
  named \<open>toLowerCase\<close>. On ASCII text it maps the letters A to Z to a to z and leaves
  every other character: that function is \<open>ascii_toLowerCase\<close>.
\<close>

definition ascii_lower_char :: "char \<Rightarrow> char" where
  "ascii_lower_char c =
     (let n = (of_char c :: nat) in if 65 \<le> n \<and> n \<le> 90 then char_of (n + 32) else c)"

definition ascii_toLowerCase :: "string \<Rightarrow> string" where
  "ascii_toLowerCase s = map ascii_lower_char s"

definition is_ascii :: "string \<Rightarrow> bool" where
  "is_ascii s = list_all (\<lambda>c. (of_char c :: nat) < 128) s"

fun startsWith :: "string \<Rightarrow> string \<Rightarrow> bool" where
  "startsWith s [] = True"
| "startsWith [] (c # cs) = False"
| "startsWith (d # ds) (c # cs) = (d = c \<and> startsWith ds cs)"

fun str_includes :: "string \<Rightarrow> string \<Rightarrow> bool" where
  \<comment> \<open>\<^verbatim>\<open>String.prototype.includes\<close>: the second string occurs in the first\<close>
  "str_includes [] sub = startsWith [] sub"
| "str_includes (d # ds) sub = (startsWith (d # ds) sub \<or> str_includes ds sub)"

definition arr_includes :: "string list \<Rightarrow> string \<Rightarrow> bool" where
  \<comment> \<open>\<^verbatim>\<open>Array.prototype.includes\<close> on an array of strings: some element is equal\<close>
  "arr_includes xs x = list_ex (\<lambda>y. y = x) xs"

section \<open>Data model (types/outfit.ts)\<close>

datatype EffortLevel = low | medium | high

record OutfitTags =
  occasion :: "string list"
  season :: "string list"
  style :: "string list"
  mood :: string
  colors :: "string list"
  garments :: "string list"
  formalityLevel :: "number option"
  effortLevel :: "EffortLevel option"

record WeatherData =
  temperature :: number
  condition :: string
  precipitation :: bool
  humidity :: "number option"
  windSpeed :: "number option"

record OutfitContext =
  weather :: WeatherData
  location :: "string option"
  duration :: "string option"
  eventType :: "string option"

record OutfitRatings =
  confidence :: number
  comfort :: number
  success :: number
  repeatLikelihood :: number
  receivedCompliments :: "bool option"
  feltAppropriate :: "bool option"

record AIAnalysis =
  styleCoherence :: number
  colorHarmony :: number
  occasionAppropriateness :: number
  summary :: string
  suggestedImprovements :: "string list option"
  confidenceFactors :: "string list option"

text \<open>Dates are milliseconds since the epoch.\<close>

record Outfit =
  outfit_id :: string
  timestamp :: int
  photoPaths :: "string list"
  tags :: OutfitTags
  outfit_context :: OutfitContext
  ratings :: "OutfitRatings option"
  outfit_notes :: "string option"
  aiAnalysis :: "AIAnalysis option"
  createdAt :: int
  updatedAt :: int

section \<open>Outfit analysis (class StyleAIEngine)\<close>

definition style_conflicts :: "(string \<times> string) list" where
  "style_conflicts =
     [(''formal'', ''casual''), (''minimalist'', ''bohemian''), (''edgy'', ''romantic'')]"

fun count_conflicts :: "(string \<times> string) list \<Rightarrow> string list \<Rightarrow> nat" where
  \<comment> \<open>the \<^verbatim>\<open>for (const conflict of conflicts)\<close> loop of checkStyleConflicts\<close>
  "count_conflicts [] styles = 0"
| "count_conflicts (c # cs) styles =
     (if arr_includes styles (fst c) \<and> arr_includes styles (snd c) then 1 else 0)
       + count_conflicts cs styles"

definition checkStyleConflicts :: "string list \<Rightarrow> nat" where
  "checkStyleConflicts styles = count_conflicts style_conflicts styles"

definition calculateStyleCoherence :: "Outfit \<Rightarrow> number" where
  "calculateStyleCoherence outfit =
     (let styles = style (tags outfit) in
      if length styles = 0 then tenths 5
      else let conflicts = checkStyleConflicts styles;
               baseScore = tenths 8;
               penalty = fmul (of_nat conflicts) (tenths 2)
           in max 0 (min 1 (fsub baseScore penalty)))"

definition neutrals :: "string list" where
  "neutrals = [''black'', ''white'', ''gray'', ''navy'', ''beige'', ''brown'']"

definition is_neutral :: "(string \<Rightarrow> string) \<Rightarrow> string \<Rightarrow> bool" where
  \<comment> \<open>\<^verbatim>\<open>neutrals.some(neutral => color.toLowerCase().includes(neutral))\<close>\<close>
  "is_neutral toLowerCase color =
     list_ex (\<lambda>neutral. str_includes (toLowerCase color) neutral) neutrals"

definition calculateColorHarmony :: "(string \<Rightarrow> string) \<Rightarrow> string list \<Rightarrow> number" where
  "calculateColorHarmony toLowerCase cols =
     (if length cols = 0 then tenths 5
      else if length cols = 1 then tenths 9
      else let neutralCount = length (filter (is_neutral toLowerCase) cols);
               neutralRatio = fdiv (of_nat neutralCount) (of_nat (length cols))
           in fadd (tenths 5) (fmul neutralRatio (tenths 4)))"

definition calculateOccasionFit :: "Outfit \<Rightarrow> number" where
  "calculateOccasionFit outfit =
     (let occasions = occasion (tags outfit) in
      if length occasions = 0 then tenths 5 else tenths 8)"

definition msg_excellent :: string where
  "msg_excellent = ''Excellent outfit choice! Great style coherence and perfect for the occasion.''"

definition msg_good :: string where
  "msg_good = ''Good outfit with room for minor improvements.''"

definition msg_adjust :: string where
  "msg_adjust = ''Consider adjusting some elements for better overall harmony.''"

definition generateAnalysisSummary :: "number \<Rightarrow> number \<Rightarrow> number \<Rightarrow> string" where
  "generateAnalysisSummary st col occ =
     (let overall = fdiv (fadd (fadd st col) occ) 3 in
      if tenths 8 \<le> overall then msg_excellent
      else if tenths 6 \<le> overall then msg_good
      else msg_adjust)"

definition imp_style :: string where
  "imp_style = ''Consider choosing accessories that better match your overall style''"

definition imp_colors :: string where
  "imp_colors = ''Try limiting to 2-3 main colors for better harmony''"

definition imp_simplify :: string where
  "imp_simplify = ''Simplify the outfit by removing one accessory''"

definition generateImprovements :: "Outfit \<Rightarrow> number \<Rightarrow> number \<Rightarrow> string list" where
  "generateImprovements outfit st col =
     (let improvements = [];
          improvements = (if st < tenths 6 then improvements @ [imp_style] else improvements);
          improvements = (if col < tenths 6 then improvements @ [imp_colors] else improvements);
          improvements = (if 6 < length (garments (tags outfit))
             then improvements @ [imp_simplify] else improvements)
      in improvements)"

definition factor_classic :: string where
  "factor_classic = ''Classic style choices tend to boost confidence''"

definition factor_dark :: string where
  "factor_dark = ''Dark colors create a polished, confident appearance''"

definition factor_work :: string where
  "factor_work = ''Professional appropriate outfit builds workplace confidence''"

definition identifyConfidenceFactors :: "Outfit \<Rightarrow> string list" where
  "identifyConfidenceFactors outfit =
     (let factors = [];
          factors = (if arr_includes (style (tags outfit)) ''classic''
             then factors @ [factor_classic] else factors);
          factors = (if list_ex (\<lambda>color. arr_includes [''navy'', ''black''] color)
                          (colors (tags outfit))
             then factors @ [factor_dark] else factors);
          factors = (if arr_includes (occasion (tags outfit)) ''work''
             then factors @ [factor_work] else factors)
      in factors)"

definition analyzeOutfit :: "(string \<Rightarrow> string) \<Rightarrow> Outfit \<Rightarrow> AIAnalysis" where
  "analyzeOutfit toLowerCase outfit =
     (let sc = calculateStyleCoherence outfit;
          ch = calculateColorHarmony toLowerCase (colors (tags outfit));
          oa = calculateOccasionFit outfit;
          summ = generateAnalysisSummary sc ch oa;
          imps = generateImprovements outfit sc ch;
          facs = identifyConfidenceFactors outfit
      in \<lparr> styleCoherence = sc, colorHarmony = ch, occasionAppropriateness = oa,
           summary = summ, suggestedImprovements = Some imps,
           confidenceFactors = Some facs \<rparr>)"

section \<open>The outfit as the engine receives it at run time\<close>

text \<open>
  The declared types are erased at run time: a tag field of the object passed to
  analyzeOutfit can be absent (\<^verbatim>\<open>undefined\<close>), which is \<open>None\<close> here. Reading
  a property of an absent array (\<^verbatim>\<open>length\<close>, \<^verbatim>\<open>includes\<close>, \<^verbatim>\<open>some\<close>)
  raises a TypeError. The functions below are the functions above with that failure
  written out, in the order the source reads the fields.
\<close>

datatype js_error = TypeError

record JsOutfitTags =
  js_occasion :: "string list option"
  js_season :: "string list option"
  js_style :: "string list option"
  js_mood :: "string option"
  js_colors :: "string list option"
  js_garments :: "string list option"
  js_formalityLevel :: "number option"
  js_effortLevel :: "EffortLevel option"

record JsOutfit =
  js_outfit_id :: string
  js_timestamp :: int
  js_photoPaths :: "string list"
  js_tags :: JsOutfitTags
  js_outfit_context :: OutfitContext
  js_ratings :: "OutfitRatings option"
  js_outfit_notes :: "string option"
  js_aiAnalysis :: "AIAnalysis option"
  js_createdAt :: int
  js_updatedAt :: int

definition calculateStyleCoherence_js :: "JsOutfit \<Rightarrow> js_error + number" where
  "calculateStyleCoherence_js outfit =
     (case js_style (js_tags outfit) of
        None \<Rightarrow> Inl TypeError
      | Some styles \<Rightarrow>
          Inr (if length styles = 0 then tenths 5
               else let conflicts = checkStyleConflicts styles;
                        baseScore = tenths 8;
                        penalty = fmul (of_nat conflicts) (tenths 2)
                    in max 0 (min 1 (fsub baseScore penalty))))"

definition calculateColorHarmony_js ::
    "(string \<Rightarrow> string) \<Rightarrow> string list option \<Rightarrow> js_error + number" where
  "calculateColorHarmony_js toLowerCase cols =
     (case cols of
        None \<Rightarrow> Inl TypeError
      | Some cs \<Rightarrow> Inr (calculateColorHarmony toLowerCase cs))"

definition calculateOccasionFit_js :: "JsOutfit \<Rightarrow> js_error + number" where
  "calculateOccasionFit_js outfit =
     (case js_occasion (js_tags outfit) of
        None \<Rightarrow> Inl TypeError
      | Some occasions \<Rightarrow> Inr (if length occasions = 0 then tenths 5 else tenths 8))"

definition generateImprovements_js :: "JsOutfit \<Rightarrow> number \<Rightarrow> number \<Rightarrow> js_error + string list" where
  "generateImprovements_js outfit st col =
     (let improvements = [];
          improvements = (if st < tenths 6 then improvements @ [imp_style] else improvements);
          improvements = (if col < tenths 6 then improvements @ [imp_colors] else improvements)
      in case js_garments (js_tags outfit) of
           None \<Rightarrow> Inl TypeError
         | Some gs \<Rightarrow>
             Inr (if 6 < length gs then improvements @ [imp_simplify] else improvements))"

definition identifyConfidenceFactors_js :: "JsOutfit \<Rightarrow> js_error + string list" where
  "identifyConfidenceFactors_js outfit =
     (case js_style (js_tags outfit) of
        None \<Rightarrow> Inl TypeError
      | Some styles \<Rightarrow>
     (case js_colors (js_tags outfit) of
        None \<Rightarrow> Inl TypeError
      | Some cols \<Rightarrow>
     (case js_occasion (js_tags outfit) of
        None \<Rightarrow> Inl TypeError
      | Some occasions \<Rightarrow>
          Inr (let factors = [];
                   factors = (if arr_includes styles ''classic''
                      then factors @ [factor_classic] else factors);
                   factors = (if list_ex (\<lambda>color. arr_includes [''navy'', ''black''] color) cols
                      then factors @ [factor_dark] else factors);
                   factors = (if arr_includes occasions ''work''
                      then factors @ [factor_work] else factors)
               in factors))))"

definition analyzeOutfit_js :: "(string \<Rightarrow> string) \<Rightarrow> JsOutfit \<Rightarrow> js_error + AIAnalysis" where
  "analyzeOutfit_js toLowerCase outfit =
     (case calculateStyleCoherence_js outfit of
        Inl e \<Rightarrow> Inl e
      | Inr sc \<Rightarrow>
     (case calculateColorHarmony_js toLowerCase (js_colors (js_tags outfit)) of
        Inl e \<Rightarrow> Inl e
      | Inr ch \<Rightarrow>
     (case calculateOccasionFit_js outfit of
        Inl e \<Rightarrow> Inl e
      | Inr oa \<Rightarrow>
     (let summ = generateAnalysisSummary sc ch oa in
      case generateImprovements_js outfit sc ch of
        Inl e \<Rightarrow> Inl e
      | Inr imps \<Rightarrow>
     (case identifyConfidenceFactors_js outfit of
        Inl e \<Rightarrow> Inl e
      | Inr facs \<Rightarrow>
          Inr \<lparr> styleCoherence = sc, colorHarmony = ch, occasionAppropriateness = oa,
                summary = summ, suggestedImprovements = Some imps,
                confidenceFactors = Some facs \<rparr>)))))"

section \<open>Rating insights\<close>

definition note_no_ratings :: string where
  "note_no_ratings = ''No ratings provided yet.''"

definition note_confidence_high :: string where
  "note_confidence_high = ''High confidence outfit - great style choice!''"

definition note_confidence_low :: string where
  "note_confidence_low = ''Consider what made you feel less confident about this outfit.''"

definition note_comfort_high :: string where
  "note_comfort_high = ''Very comfortable - perfect for active days.''"

definition note_comfort_low :: string where
  "note_comfort_low = ''Low comfort - consider fabric and fit adjustments.''"

definition note_success :: string where
  "note_success = ''Highly successful outfit - save this combination!''"

definition note_tradeoff :: string where
  "note_tradeoff = ''Style over comfort trade-off - consider more comfortable alternatives.''"

definition generateRatingInsights :: "Outfit \<Rightarrow> string list" where
  "generateRatingInsights outfit =
     (case ratings outfit of
        None \<Rightarrow> [note_no_ratings]
      | Some r \<Rightarrow>
         (let insights = [];
              insights = (if 8 \<le> confidence r then insights @ [note_confidence_high]
                          else if confidence r \<le> 4 then insights @ [note_confidence_low]
                          else insights);
              insights = (if 8 \<le> comfort r then insights @ [note_comfort_high]
                          else if comfort r \<le> 4 then insights @ [note_comfort_low]
                          else insights);
              insights = (if 8 \<le> success r then insights @ [note_success] else insights);
              insights = (if comfort r < confidence r then insights @ [note_tradeoff]
                          else insights)
          in insights))"

section \<open>Recommendations\<close>

text \<open>
  The argument of generateRecommendations is the argument object of the
  \<^verbatim>\<open>get_outfit_recommendations\<close> tool; every field is optional, and the empty object
  has them all absent.
\<close>

record RecommendationContext =
  rc_occasion :: "string option"
  rc_weather :: "WeatherData option"
  rc_mood_preference :: "string option"
  rc_style_preference :: "string list option"
  rc_time_of_day :: "string option"
  rc_duration :: "string option"
  rc_limit :: "number option"

text \<open>
  The identifier of a recommendation is formatted from one reading of the clock and one
  random draw; it is kept as that pair, the formatting is not modelled. The optional
  fields outfitId and suggestedCombination, which the engine never sets, are left out.
\<close>

datatype RecId = RecId int number

record OutfitRecommendation =
  rec_id :: RecId
  score :: number
  reasoning :: "string list"
  weatherScore :: number
  occasionScore :: number
  personalScore :: number
  confidenceScore :: number

text \<open>
  \<^verbatim>\<open>Math.random\<close> and \<^verbatim>\<open>Date.now\<close> read the environment: the model
  passes it explicitly, as the sequence of values the calls return and the number of
  calls made so far.
\<close>

record World =
  random_source :: "nat \<Rightarrow> number"
  random_calls :: nat
  clock_source :: "nat \<Rightarrow> int"
  clock_calls :: nat

definition Math_random :: "World \<Rightarrow> number \<times> World" where
  "Math_random w = (random_source w (random_calls w), w\<lparr>random_calls := Suc (random_calls w)\<rparr>)"

definition Date_now :: "World \<Rightarrow> int \<times> World" where
  "Date_now w = (clock_source w (clock_calls w), w\<lparr>clock_calls := Suc (clock_calls w)\<rparr>)"

definition approaches :: "string list" where
  "approaches = [''high_confidence_historical'', ''weather_optimized'', ''occasion_perfect'',
     ''comfort_focused'', ''style_exploration'']"

definition reasoningMap :: "(string \<times> string list) list" where
  "reasoningMap =
     [(''high_confidence_historical'',
        [''Based on your highest-rated outfits'', ''Proven confidence booster'',
         ''Similar weather conditions performed well'']),
      (''weather_optimized'',
        [''Perfect for current weather conditions'', ''Breathable fabrics for comfort'',
         ''Appropriate layering options'']),
      (''occasion_perfect'',
        [''Ideal for the planned occasion'', ''Meets dress code requirements'',
         ''Professional yet approachable'']),
      (''comfort_focused'',
        [''Maximum comfort for all-day wear'', ''Soft, stretchy fabrics'',
         ''Easy movement and flexibility'']),
      (''style_exploration'',
        [''Try something new within your style range'', ''Subtle variation on your usual look'',
         ''Low-risk style experiment''])]"

definition generateRecommendationReasoning :: "string \<Rightarrow> RecommendationContext \<Rightarrow> string list" where
  \<comment> \<open>\<^verbatim>\<open>reasoningMap[approach] || [...]\<close>; the engine only looks up the five approaches\<close>
  "generateRecommendationReasoning approach ctx =
     (case map_of reasoningMap approach of
        Some r \<Rightarrow> r
      | None \<Rightarrow> [''General recommendation based on your preferences''])"

definition random_score :: "World \<Rightarrow> number \<times> World" where
  \<comment> \<open>\<^verbatim>\<open>Math.random() * 0.3 + 0.7\<close>\<close>
  "random_score w = (let (r, w1) = Math_random w in (fadd (fmul r (tenths 3)) (tenths 7), w1))"

definition generateSingleRecommendation ::
    "RecommendationContext \<Rightarrow> string \<Rightarrow> World \<Rightarrow> OutfitRecommendation \<times> World" where
  "generateSingleRecommendation ctx approach w =
     (let (baseScore, w1) = random_score w;
          reasons = generateRecommendationReasoning approach ctx;
          (now, w2) = Date_now w1;
          (idr, w3) = Math_random w2;
          (ws, w4) = random_score w3;
          (os, w5) = random_score w4;
          (ps, w6) = random_score w5;
          (cs, w7) = random_score w6
      in (\<lparr> rec_id = RecId now idr, score = baseScore, reasoning = reasons,
             weatherScore = ws, occasionScore = os, personalScore = ps,
             confidenceScore = cs \<rparr>, w7))"

fun recommend_loop ::
    "RecommendationContext \<Rightarrow> string list \<Rightarrow> OutfitRecommendation list \<Rightarrow> World
      \<Rightarrow> OutfitRecommendation list \<times> World" where
  \<comment> \<open>the \<^verbatim>\<open>for\<close> loop over the approaches, pushing one recommendation each\<close>
  "recommend_loop ctx [] recs w = (recs, w)"
| "recommend_loop ctx (a # as) recs w =
     (let (r, w1) = generateSingleRecommendation ctx a w
      in recommend_loop ctx as (recs @ [r]) w1)"

text \<open>
  \<^verbatim>\<open>Array.prototype.sort\<close> with a comparator is a stable sort: an element goes
  before another when the comparator is negative, and keeps its place when it is zero.
\<close>

fun sort_insert :: "('a \<Rightarrow> 'a \<Rightarrow> number) \<Rightarrow> 'a \<Rightarrow> 'a list \<Rightarrow> 'a list" where
  "sort_insert cmp x [] = [x]"
| "sort_insert cmp x (y # ys) =
     (if cmp x y \<le> 0 then x # y # ys else y # sort_insert cmp x ys)"

definition js_sort :: "('a \<Rightarrow> 'a \<Rightarrow> number) \<Rightarrow> 'a list \<Rightarrow> 'a list" where
  "js_sort cmp xs = foldr (sort_insert cmp) xs []"

definition generateRecommendations ::
    "RecommendationContext \<Rightarrow> World \<Rightarrow> OutfitRecommendation list \<times> World" where
  "generateRecommendations ctx w =
     (let (recommendations, w1) = recommend_loop ctx approaches [] w
      in (js_sort (\<lambda>a b. fsub (score b) (score a)) recommendations, w1))"

section \<open>Fixtures\<close>

text \<open>
  An outfit with every collection empty and every optional field absent; the concrete
  instances below are obtained from it by record update.
\<close>

definition empty_tags :: OutfitTags where
  "empty_tags = \<lparr> occasion = [], season = [], style = [], mood = [], colors = [],
     garments = [], formalityLevel = None, effortLevel = None \<rparr>"

definition empty_outfit :: Outfit where
  "empty_outfit = \<lparr> outfit_id = ''o1'', timestamp = 0, photoPaths = [], tags = empty_tags,
     outfit_context = \<lparr> weather = \<lparr> temperature = 70, condition = ''sunny'',
        precipitation = False, humidity = None, windSpeed = None \<rparr>,
        location = None, duration = None, eventType = None \<rparr>,
     ratings = None, outfit_notes = None, aiAnalysis = None, createdAt = 0, updatedAt = 0 \<rparr>"

definition rated :: "number \<Rightarrow> number \<Rightarrow> number \<Rightarrow> OutfitRatings" where
  "rated c f s = \<lparr> confidence = c, comfort = f, success = s, repeatLikelihood = 5,
     receivedCompliments = None, feltAppropriate = None \<rparr>"

definition with_tags :: "string list \<Rightarrow> string list \<Rightarrow> string list \<Rightarrow> string list \<Rightarrow> Outfit" where
  \<comment> \<open>the empty outfit with the given style, colors, occasion and garments\<close>
  "with_tags st cl oc ga =
     empty_outfit\<lparr>tags := empty_tags\<lparr>style := st, colors := cl, occasion := oc, garments := ga\<rparr>\<rparr>"

definition empty_context :: RecommendationContext where
  "empty_context = \<lparr> rc_occasion = None, rc_weather = None, rc_mood_preference = None,
     rc_style_preference = None, rc_time_of_day = None, rc_duration = None, rc_limit = None \<rparr>"

definition sample_world :: World where
  \<comment> \<open>random draws 0, 1/8, 2/8, ..., 7/8, 0, ...; the clock advances by one\<close>
  "sample_world = \<lparr> random_source = (\<lambda>n. of_nat (n mod 8) / 8), random_calls = 0,
     clock_source = (\<lambda>n. 1700000000000 + int n), clock_calls = 0 \<rparr>"

definition js_empty_tags :: JsOutfitTags where
  \<comment> \<open>the tags createOutfit builds when no tag is given: every array present and empty\<close>
  "js_empty_tags = \<lparr> js_occasion = Some [], js_season = Some [], js_style = Some [],
     js_mood = Some [], js_colors = Some [], js_garments = Some [],
     js_formalityLevel = None, js_effortLevel = None \<rparr>"

definition js_empty_outfit :: JsOutfit where
  "js_empty_outfit = \<lparr> js_outfit_id = ''o1'', js_timestamp = 0, js_photoPaths = [],
     js_tags = js_empty_tags, js_outfit_context = outfit_context empty_outfit,
     js_ratings = None, js_outfit_notes = None, js_aiAnalysis = None,
     js_createdAt = 0, js_updatedAt = 0 \<rparr>"

fun kelvin_toLowerCase :: "string \<Rightarrow> string" where
  \<comment> \<open>lower-cases ASCII and the Kelvin sign U+212A (bytes E2 84 AA), which becomes k\<close>
  "kelvin_toLowerCase (a # b # c # cs) =
     (if a = CHR 0xE2 \<and> b = CHR 0x84 \<and> c = CHR 0xAA then CHR ''k'' # kelvin_toLowerCase cs
      else ascii_lower_char a # kelvin_toLowerCase (b # c # cs))"
| "kelvin_toLowerCase (a # cs) = ascii_lower_char a # kelvin_toLowerCase cs"
| "kelvin_toLowerCase [] = []"

section \<open>Auxiliary definitions\<close>

definition coherence_of :: "nat \<Rightarrow> number" where
  \<comment> \<open>the style score of calculateStyleCoherence for a given number of conflicts\<close>
  "coherence_of c = max 0 (min 1 (fsub (tenths 8) (fmul (of_nat c) (tenths 2))))"

definition all_styles :: "string list" where
  "all_styles = [''formal'', ''casual'', ''minimalist'', ''bohemian'', ''edgy'', ''romantic'']"

section \<open>Properties of rounding\<close>

text \<open>
  The exponent brackets its argument, rounding to an integer is monotone and fixes the
  integers; hence rounding to a number is monotone on the non-negative rationals and
  keeps the sign.
\<close>

lemma pow2_bitlen:
  assumes "0 < (p::int)"
  shows "(2::rat) powi (bitlen p - 1) \<le> of_int p" and "of_int p < (2::rat) powi (bitlen p)"
proof -
  from bitlen_bounds[OF assms]
  have a: "2 ^ nat (bitlen p - 1) \<le> p" and b: "p < 2 ^ nat (bitlen p)" by auto
  have ge1: "1 \<le> bitlen p" using assms bitlen_eq_zero_iff[of p] bitlen_nonneg[of p] by linarith
  have "(2::rat) powi (bitlen p - 1) = 2 ^ nat (bitlen p - 1)"
    using ge1 by (simp add: power_int_def)
  also have "\<dots> = of_int (2 ^ nat (bitlen p - 1))" by simp
  also have "\<dots> \<le> of_int p" using a by (simp only: of_int_le_iff)
  finally show "(2::rat) powi (bitlen p - 1) \<le> of_int p" .
  have "(of_int p :: rat) < of_int (2 ^ nat (bitlen p))" using b by (simp only: of_int_less_iff)
  also have "\<dots> = 2 powi (bitlen p)" using ge1 by (simp add: power_int_def)
  finally show "of_int p < (2::rat) powi (bitlen p)" .
qed

lemma expo_bounds:
  assumes "x \<noteq> 0"
  shows "2 powi (expo x) \<le> \<bar>x\<bar>" and "\<bar>x\<bar> < 2 powi (expo x + 1)"
proof -
  obtain p q where pq: "quotient_of \<bar>x\<bar> = (p, q)" by (cases "quotient_of \<bar>x\<bar>")
  have q: "0 < q" using quotient_of_denom_pos[OF pq] .
  have xeq: "\<bar>x\<bar> = of_int p / of_int q" using quotient_of_div[OF pq] .
  have xpos: "0 < \<bar>x\<bar>" using assms by simp
  have p: "0 < p"
    using xpos q unfolding xeq by (simp add: zero_less_divide_iff)
  let ?d = "bitlen p - bitlen q"
  note bp = pow2_bitlen[OF p] and bq = pow2_bitlen[OF q]
  have qr: "0 < (of_int q :: rat)" using q by simp
  have up: "\<bar>x\<bar> < 2 powi (?d + 1)"
  proof -
    have "of_int p < (2::rat) powi (bitlen p)" by (rule bp)
    also have "\<dots> = 2 powi (?d + 1) * 2 powi (bitlen q - 1)"
      by (simp flip: power_int_add)
    also have "\<dots> \<le> 2 powi (?d + 1) * of_int q"
      by (rule mult_left_mono[OF bq(1)]) simp
    finally show ?thesis unfolding xeq using qr by (simp add: divide_less_eq)
  qed
  have lo: "2 powi (?d - 1) \<le> \<bar>x\<bar>"
  proof -
    have "2 powi (?d - 1) * of_int q \<le> 2 powi (?d - 1) * (2::rat) powi (bitlen q)"
      by (rule mult_left_mono) (use bq(2) in simp_all)
    also have "\<dots> = 2 powi (bitlen p - 1)"
      by (simp flip: power_int_add)
    also have "\<dots> \<le> of_int p" by (rule bp)
    finally show ?thesis unfolding xeq using qr by (simp add: le_divide_eq)
  qed
  have e: "expo x = (if 2 powi ?d \<le> \<bar>x\<bar> then ?d else ?d - 1)"
    by (simp add: expo_def pq Let_def)
  show "2 powi (expo x) \<le> \<bar>x\<bar>" using lo by (simp add: e)
  show "\<bar>x\<bar> < 2 powi (expo x + 1)" using up by (auto simp add: e not_le)
qed

lemma pow2_less_D:
  assumes "(2::rat) powi a < 2 powi b"
  shows "a < b"
proof (rule ccontr)
  assume "\<not> a < b"
  then have "b \<le> a" by simp
  then have "(2::rat) powi b \<le> 2 powi a" by (rule power_int_increasing) simp
  with assms show False by simp
qed

lemma expo_mono:
  assumes "0 < x" "x \<le> y"
  shows "expo x \<le> expo y"
proof -
  have x0: "x \<noteq> 0" and y0: "y \<noteq> 0" using assms by auto
  have "(2::rat) powi (expo x) \<le> \<bar>x\<bar>" by (rule expo_bounds[OF x0])
  also have "\<dots> \<le> \<bar>y\<bar>" using assms by simp
  also have "\<dots> < 2 powi (expo y + 1)" by (rule expo_bounds[OF y0])
  finally have "expo x < expo y + 1" by (rule pow2_less_D)
  then show ?thesis by simp
qed

lemma rne_of_int: "rne (of_int n) = n"
  by (simp add: rne_def)

lemma rne_bounds: "\<lfloor>y\<rfloor> \<le> rne y" "rne y \<le> \<lfloor>y\<rfloor> + 1"
  by (simp_all add: rne_def Let_def)

lemma rne_mono:
  assumes "x \<le> y"
  shows "rne x \<le> rne y"
proof (cases "\<lfloor>x\<rfloor> = \<lfloor>y\<rfloor>")
  case True
  have "x - of_int \<lfloor>y\<rfloor> \<le> y - of_int \<lfloor>y\<rfloor>" using assms by simp
  then show ?thesis
    by (auto simp add: rne_def Let_def True)
next
  case False
  have "\<lfloor>x\<rfloor> \<le> \<lfloor>y\<rfloor>" using assms by (rule floor_mono)
  with False have "\<lfloor>x\<rfloor> + 1 \<le> \<lfloor>y\<rfloor>" by simp
  with rne_bounds(2)[of x] rne_bounds(1)[of y] show ?thesis by linarith
qed

lemma rne_ge_int: "of_int n \<le> y \<Longrightarrow> n \<le> rne y"
  using rne_mono[of "of_int n" y] by (simp add: rne_of_int)

lemma rne_le_int: "y \<le> of_int n \<Longrightarrow> rne y \<le> n"
  using rne_mono[of y "of_int n"] by (simp add: rne_of_int)

lemma rnd_pos_bounds:
  assumes "0 < x"
  shows "2 powi (expo x) \<le> rnd x" and "rnd x \<le> 2 powi (expo x + 1)"
proof -
  let ?u = "(2::rat) powi (expo x - 52)"
  have x0: "x \<noteq> 0" using assms by simp
  have u: "0 < ?u" by simp
  have r: "rnd x = of_int (rne (x / ?u)) * ?u" using x0 by (simp add: rnd_def Let_def)
  have e1: "2 powi (expo x) = of_int (2 ^ 52) * ?u"
    by (simp flip: power_int_add add: power_int_diff)
  have e2: "2 powi (expo x + 1) = of_int (2 ^ 53) * ?u"
    by (simp add: power_int_diff power_int_add)
  from expo_bounds[OF x0] assms have lo: "2 powi (expo x) \<le> x" and hi: "x < 2 powi (expo x + 1)"
    by simp_all
  have "of_int (2 ^ 52) \<le> x / ?u" using lo u unfolding e1 by (simp add: le_divide_eq)
  then have "2 ^ 52 \<le> rne (x / ?u)" by (rule rne_ge_int)
  then have "(of_int (2 ^ 52) :: rat) \<le> of_int (rne (x / ?u))" by (simp only: of_int_le_iff)
  then show "2 powi (expo x) \<le> rnd x" unfolding r e1 using u by (simp only: mult_le_cancel_right_pos)
  have "x / ?u \<le> of_int (2 ^ 53)" using hi u unfolding e2 by (simp add: divide_le_eq)
  then have "rne (x / ?u) \<le> 2 ^ 53" by (rule rne_le_int)
  then have "(of_int (rne (x / ?u)) :: rat) \<le> of_int (2 ^ 53)" by (simp only: of_int_le_iff)
  then show "rnd x \<le> 2 powi (expo x + 1)" unfolding r e2 using u by (simp only: mult_le_cancel_right_pos)
qed

lemma rnd_pos: "0 < x \<Longrightarrow> 0 < rnd x"
proof -
  assume x: "0 < x"
  have "(0::rat) < 2 powi (expo x)" by simp
  also have "\<dots> \<le> rnd x" by (rule rnd_pos_bounds[OF x])
  finally show ?thesis .
qed

lemma rnd_neg: 
  assumes "x < 0" shows "rnd x < 0"
proof -
  let ?u = "(2::rat) powi (expo x - 52)"
  have x0: "x \<noteq> 0" using assms by simp
  have u: "0 < ?u" by simp
  have r: "rnd x = of_int (rne (x / ?u)) * ?u" using x0 by (simp add: rnd_def Let_def)
  have e1: "2 powi (expo x) = of_int (2 ^ 52) * ?u"
    by (simp flip: power_int_add add: power_int_diff)
  from expo_bounds(1)[OF x0] assms have "x \<le> - (2 powi (expo x))" by simp
  then have "x \<le> of_int (- (2 ^ 52)) * ?u" unfolding e1 by simp
  then have "x / ?u \<le> of_int (- (2 ^ 52))" using u by (simp only: divide_le_eq if_True)
  then have "rne (x / ?u) \<le> - (2 ^ 52)" by (rule rne_le_int)
  then have "rne (x / ?u) < 0" by simp
  then have "(of_int (rne (x / ?u)) :: rat) < 0" by simp
  then show ?thesis unfolding r using u by (simp add: mult_less_0_iff)
qed

lemma rnd_zero: "rnd 0 = 0"
  by (simp add: rnd_def)

lemma rnd_mono:
  assumes "0 \<le> x" "x \<le> y"
  shows "rnd x \<le> rnd y"
proof (cases "x = 0")
  case True
  show ?thesis
  proof (cases "y = 0")
    case True with \<open>x = 0\<close> show ?thesis by simp
  next
    case False
    with assms have "0 < y" by simp
    from rnd_pos[OF this] True show ?thesis by (simp add: rnd_zero)
  qed
next
  case False
  with assms have x: "0 < x" and y: "0 < y" by simp_all
  have le: "expo x \<le> expo y" using x assms(2) by (rule expo_mono)
  show ?thesis
  proof (cases "expo x = expo y")
    case True
    let ?u = "(2::rat) powi (expo y - 52)"
    have u: "0 < ?u" by simp
    have "x / ?u \<le> y / ?u" using assms(2) u by (simp add: divide_right_mono)
    then have "rne (x / ?u) \<le> rne (y / ?u)" by (rule rne_mono)
    then have "(of_int (rne (x / ?u)) :: rat) \<le> of_int (rne (y / ?u))" by (simp only: of_int_le_iff)
    then have "of_int (rne (x / ?u)) * ?u \<le> of_int (rne (y / ?u)) * ?u"
      using u by (simp only: mult_le_cancel_right_pos)
    then show ?thesis using x y True by (simp add: rnd_def Let_def)
  next
    case False
    with le have "expo x + 1 \<le> expo y" by simp
    then have "(2::rat) powi (expo x + 1) \<le> 2 powi (expo y)" by (rule power_int_increasing) simp
    with rnd_pos_bounds(2)[OF x] rnd_pos_bounds(1)[OF y] show ?thesis by linarith
  qed
qed

lemma rnd_nonneg: "0 \<le> x \<Longrightarrow> 0 \<le> rnd x"
  using rnd_mono[of 0 x] by (simp add: rnd_zero)

lemma rnd_le_zero_iff: "rnd x \<le> 0 \<longleftrightarrow> x \<le> 0"
proof
  assume "rnd x \<le> 0"
  show "x \<le> 0"
  proof (rule ccontr)
    assume "\<not> x \<le> 0"
    then have "0 < rnd x" by (simp add: rnd_pos)
    with \<open>rnd x \<le> 0\<close> show False by simp
  qed
next
  assume "x \<le> 0"
  then show "rnd x \<le> 0"
    using rnd_neg[of x] by (cases "x = 0") (auto simp: rnd_zero)
qed

section \<open>Rating insights: the threshold rules\<close>

text \<open>
  C4. With ratings present, generateRatingInsights returns the notes of six threshold
  rules in their check order: confidence at least 8 (positive note) or else confidence at
  most 4 (reflective prompt); comfort at least 8 (positive note) or else comfort at most 4
  (improvement prompt); success at least 8 (save-this-combination note); confidence above
  comfort (trade-off note). For ratings with confidence 9, comfort 3 and success 8 the
  result is exactly the four notes confidence-high, comfort-low, save-this-combination,
  trade-off, in this order.
\<close>

theorem generateRatingInsights_rules:
  "ratings outfit = Some r \<Longrightarrow>
     generateRatingInsights outfit =
           (if 8 \<le> confidence r then [note_confidence_high]
            else if confidence r \<le> 4 then [note_confidence_low] else [])
         @ (if 8 \<le> comfort r then [note_comfort_high]
            else if comfort r \<le> 4 then [note_comfort_low] else [])
         @ (if 8 \<le> success r then [note_success] else [])
         @ (if confidence r > comfort r then [note_tradeoff] else [])
     \<and> (confidence r = 9 \<and> comfort r = 3 \<and> success r = 8 \<longrightarrow>
         generateRatingInsights outfit =
           [note_confidence_high, note_comfort_low, note_success, note_tradeoff])"
  by (simp add: generateRatingInsights_def)

theorem generateRatingInsights_rules_witness:
  "ratings (empty_outfit\<lparr>ratings := Some (rated 9 3 8)\<rparr>) = Some (rated 9 3 8)
   \<and> confidence (rated 9 3 8) = 9 \<and> comfort (rated 9 3 8) = 3 \<and> success (rated 9 3 8) = 8
   \<and> generateRatingInsights (empty_outfit\<lparr>ratings := Some (rated 9 3 8)\<rparr>) =
       [note_confidence_high, note_comfort_low, note_success, note_tradeoff]
   \<and> length (generateRatingInsights (empty_outfit\<lparr>ratings := Some (rated 9 3 8)\<rparr>)) = 4"
  using generateRatingInsights_rules
    [of "empty_outfit\<lparr>ratings := Some (rated 9 3 8)\<rparr>" "rated 9 3 8"]
  by (simp add: rated_def)

text \<open>
  C7. For an outfit whose ratings field is absent, generateRatingInsights returns the
  single-element list holding the no-rating message (the model has no failing branch, so
  nothing is thrown), and the result of generateRatingInsights is a function of the
  ratings field alone: outfits with equal ratings get equal insights.
\<close>

theorem generateRatingInsights_absent:
  "(ratings outfit = None \<longrightarrow> generateRatingInsights outfit = [note_no_ratings])
   \<and> (ratings outfit = ratings outfit' \<longrightarrow>
        generateRatingInsights outfit = generateRatingInsights outfit')"
  by (simp add: generateRatingInsights_def)

theorem generateRatingInsights_absent_witness:
  "ratings empty_outfit = None
   \<and> ratings empty_outfit = ratings (empty_outfit\<lparr>outfit_id := ''o2'', outfit_notes := Some ''n''\<rparr>)
   \<and> generateRatingInsights empty_outfit = [''No ratings provided yet.'']
   \<and> generateRatingInsights empty_outfit =
       generateRatingInsights (empty_outfit\<lparr>outfit_id := ''o2'', outfit_notes := Some ''n''\<rparr>)"
proof -
  have r: "ratings empty_outfit = None"
    by (simp add: empty_outfit_def)
  from generateRatingInsights_absent
    [of empty_outfit "empty_outfit\<lparr>outfit_id := ''o2'', outfit_notes := Some ''n''\<rparr>"]
  show ?thesis
    unfolding note_no_ratings_def using r by auto
qed

section \<open>Style coherence\<close>

text \<open>The numbers the literals and the four possible penalties denote.\<close>

lemma literal_values:
  "tenths 5 = 1/2"
  "tenths 8 = 3602879701896397 / 4503599627370496"
  "tenths 6 = 5404319552844595 / 9007199254740992"
  "tenths 2 = 3602879701896397 / 18014398509481984"
  "tenths 9 = 8106479329266893 / 9007199254740992"
  "tenths 4 = 3602879701896397 / 9007199254740992"
  "tenths 7 = 3152519739159347 / 4503599627370496"
  by code_simp+

lemma penalty_values:
  "fsub (tenths 8) (fmul 0 (tenths 2)) = 3602879701896397 / 4503599627370496"
  "fsub (tenths 8) (fmul 1 (tenths 2)) = 1351079888211149 / 2251799813685248"
  "fsub (tenths 8) (fmul 2 (tenths 2)) = 3602879701896397 / 9007199254740992"
  "fsub (tenths 8) (fmul 3 (tenths 2)) = 900719925474099 / 4503599627370496"
  by code_simp+

lemma arr_includes_iff: "arr_includes xs x \<longleftrightarrow> x \<in> set xs"
  by (auto simp add: arr_includes_def list_ex_iff)

lemma checkStyleConflicts_sum:
  "checkStyleConflicts s =
     (if ''formal'' \<in> set s \<and> ''casual'' \<in> set s then 1 else 0)
   + (if ''minimalist'' \<in> set s \<and> ''bohemian'' \<in> set s then 1 else 0)
   + (if ''edgy'' \<in> set s \<and> ''romantic'' \<in> set s then 1 else 0)"
  by (simp add: checkStyleConflicts_def style_conflicts_def arr_includes_iff)

lemma checkStyleConflicts_filter:
  "checkStyleConflicts s =
     length (filter (\<lambda>(a, b). a \<in> set s \<and> b \<in> set s) style_conflicts)"
  by (simp add: checkStyleConflicts_def style_conflicts_def arr_includes_iff)

lemma coherence_of_values:
  "coherence_of 0 = 3602879701896397 / 4503599627370496"
  "coherence_of (Suc 0) = 1351079888211149 / 2251799813685248"
  "coherence_of (Suc (Suc 0)) = 3602879701896397 / 9007199254740992"
  "coherence_of (Suc (Suc (Suc 0))) = 900719925474099 / 4503599627370496"
  by (simp_all add: coherence_of_def penalty_values)

lemma styleCoherence_eq:
  "styleCoherence (analyzeOutfit lc outfit) =
     (if style (tags outfit) = [] then 1/2
      else coherence_of (checkStyleConflicts (style (tags outfit))))"
  by (simp add: analyzeOutfit_def calculateStyleCoherence_def Let_def coherence_of_def literal_values)


lemma coherence_of_cases:
  "c \<le> 3 \<Longrightarrow> c = 0 \<or> c = Suc 0 \<or> c = Suc (Suc 0) \<or> c = Suc (Suc (Suc 0))"
  by arith

lemma checkStyleConflicts_le: "checkStyleConflicts s \<le> 3"
  by (simp add: checkStyleConflicts_sum)

lemma coherence_of_unclamped:
  assumes "c \<le> 3"
  shows "coherence_of c = fsub (tenths 8) (fmul (of_nat c) (tenths 2))"
  using coherence_of_cases[OF assms]
  by (auto simp add: coherence_of_def penalty_values)

lemma coherence_of_Suc:
  assumes "c \<le> 2"
  shows "coherence_of (Suc c) < coherence_of c"
proof -
  from assms have "c = 0 \<or> c = Suc 0 \<or> c = Suc (Suc 0)" by arith
  then show ?thesis
    by (auto simp add: coherence_of_values)
qed

lemma conflicts_remove:
  assumes "''formal'' \<in> set s" "''casual'' \<in> set s" "x = ''formal'' \<or> x = ''casual''"
  shows "checkStyleConflicts s = Suc (checkStyleConflicts (removeAll x s))"
    and "checkStyleConflicts (removeAll x s) \<le> 2"
    and "removeAll x s \<noteq> []"
proof -
  show "checkStyleConflicts s = Suc (checkStyleConflicts (removeAll x s))"
    using assms by (auto simp add: checkStyleConflicts_sum)
  show "checkStyleConflicts (removeAll x s) \<le> 2"
    using assms by (auto simp add: checkStyleConflicts_sum)
  have "''formal'' \<in> set (removeAll x s) \<or> ''casual'' \<in> set (removeAll x s)"
    using assms by auto
  then show "removeAll x s \<noteq> []"
    by (cases "removeAll x s") (simp_all del: set_removeAll)
qed

text \<open>
  C1 (as amended). For every outfit, the styleCoherence of analyzeOutfit is exactly 0.5 when
  tags.style is empty; otherwise it is the base 0.8 minus 0.2 times the number of pairs of
  the fixed table (formal/casual, minimalist/bohemian, edgy/romantic) that have both
  members in tags.style, computed in double arithmetic and clamped to [0, 1]. For
  style tags containing both "formal" and "casual" the score is at most the double
  0.8 - 0.2, which is 0.6000000000000001 and not 0.6, and it is strictly less than the score
  of the same outfit with "casual" (or with "formal") removed from its style tags.
\<close>

theorem styleCoherence_penalty:
  "styleCoherence (analyzeOutfit lc outfit) =
     (if style (tags outfit) = [] then tenths 5
      else max 0 (min 1 (fsub (tenths 8)
             (fmul (of_nat (length (filter (\<lambda>(a, b). a \<in> set (style (tags outfit)) \<and>
                                                     b \<in> set (style (tags outfit)))
                                     style_conflicts)))
                   (tenths 2)))))
   \<and> (''formal'' \<in> set (style (tags outfit)) \<and> ''casual'' \<in> set (style (tags outfit)) \<longrightarrow>
        styleCoherence (analyzeOutfit lc outfit) \<le> fsub (tenths 8) (tenths 2)
      \<and> styleCoherence (analyzeOutfit lc outfit) <
          styleCoherence (analyzeOutfit lc (outfit\<lparr>tags := (tags outfit)
             \<lparr>style := removeAll ''casual'' (style (tags outfit))\<rparr>\<rparr>))
      \<and> styleCoherence (analyzeOutfit lc outfit) <
          styleCoherence (analyzeOutfit lc (outfit\<lparr>tags := (tags outfit)
             \<lparr>style := removeAll ''formal'' (style (tags outfit))\<rparr>\<rparr>)))"
proof (intro conjI impI)
  show "styleCoherence (analyzeOutfit lc outfit) =
     (if style (tags outfit) = [] then tenths 5
      else max 0 (min 1 (fsub (tenths 8)
             (fmul (of_nat (length (filter (\<lambda>(a, b). a \<in> set (style (tags outfit)) \<and>
                                                     b \<in> set (style (tags outfit)))
                                     style_conflicts)))
                   (tenths 2)))))"
    by (simp add: analyzeOutfit_def calculateStyleCoherence_def Let_def
        checkStyleConflicts_filter)
next
  let ?s = "style (tags outfit)"
  assume fc: "''formal'' \<in> set ?s \<and> ''casual'' \<in> set ?s"
  then have ne: "?s \<noteq> []" by auto
  have sc: "styleCoherence (analyzeOutfit lc outfit) = coherence_of (checkStyleConflicts ?s)"
    using ne by (simp add: styleCoherence_eq)
  have one: "fsub (tenths 8) (tenths 2) = coherence_of (Suc 0)"
    by (simp add: coherence_of_values) code_simp
  have ge1: "checkStyleConflicts ?s = Suc 0 \<or> checkStyleConflicts ?s = Suc (Suc 0)
      \<or> checkStyleConflicts ?s = Suc (Suc (Suc 0))"
    using fc by (auto simp add: checkStyleConflicts_sum)
  then show "styleCoherence (analyzeOutfit lc outfit) \<le> fsub (tenths 8) (tenths 2)"
    unfolding sc one by (auto simp add: coherence_of_values)
  show "styleCoherence (analyzeOutfit lc outfit) <
          styleCoherence (analyzeOutfit lc (outfit\<lparr>tags := (tags outfit)
             \<lparr>style := removeAll ''casual'' (style (tags outfit))\<rparr>\<rparr>))"
    using conflicts_remove[of ?s "''casual''"] fc coherence_of_Suc
    by (simp add: styleCoherence_eq ne)
  show "styleCoherence (analyzeOutfit lc outfit) <
          styleCoherence (analyzeOutfit lc (outfit\<lparr>tags := (tags outfit)
             \<lparr>style := removeAll ''formal'' (style (tags outfit))\<rparr>\<rparr>))"
    using conflicts_remove[of ?s "''formal''"] fc coherence_of_Suc
    by (simp add: styleCoherence_eq ne)
qed


theorem styleCoherence_penalty_witness:
  "(''formal'' \<in> set (style (tags (with_tags [''formal'', ''casual''] [] [] [])))
    \<and> ''casual'' \<in> set (style (tags (with_tags [''formal'', ''casual''] [] [] []))))
   \<and> styleCoherence (analyzeOutfit ascii_toLowerCase (with_tags [''formal'', ''casual''] [] [] []))
        \<le> fsub (tenths 8) (tenths 2)
   \<and> styleCoherence (analyzeOutfit ascii_toLowerCase (with_tags [''formal'', ''casual''] [] [] []))
        < styleCoherence (analyzeOutfit ascii_toLowerCase (with_tags [''formal''] [] [] []))
   \<and> styleCoherence (analyzeOutfit ascii_toLowerCase (with_tags [''formal'', ''casual''] [] [] []))
        < styleCoherence (analyzeOutfit ascii_toLowerCase (with_tags [''casual''] [] [] []))"
proof -
  let ?o = "with_tags [''formal'', ''casual''] [] [] []"
  have m: "''formal'' \<in> set (style (tags ?o)) \<and> ''casual'' \<in> set (style (tags ?o))"
    by (simp add: with_tags_def)
  have r: "?o\<lparr>tags := (tags ?o)\<lparr>style := removeAll ''casual'' (style (tags ?o))\<rparr>\<rparr>
             = with_tags [''formal''] [] [] []"
    "?o\<lparr>tags := (tags ?o)\<lparr>style := removeAll ''formal'' (style (tags ?o))\<rparr>\<rparr>
             = with_tags [''casual''] [] [] []"
    by (simp_all add: with_tags_def)
  from styleCoherence_penalty [where lc = ascii_toLowerCase and outfit = ?o] m show ?thesis
    unfolding r by blast
qed

text \<open>
  The claim as stated fails for the style tags formal, casual: the score is
  1351079888211149 / 2^51, above the literal 0.6 and above the fraction 6/10.
\<close>

theorem styleCoherence_penalty_counterexample:
  "styleCoherence (analyzeOutfit ascii_toLowerCase (with_tags [''formal'', ''casual''] [] [] []))
     = 1351079888211149 / 2251799813685248
   \<and> tenths 6 < styleCoherence (analyzeOutfit ascii_toLowerCase (with_tags [''formal'', ''casual''] [] [] []))
   \<and> 6 / 10 < styleCoherence (analyzeOutfit ascii_toLowerCase (with_tags [''formal'', ''casual''] [] [] []))"
  by (simp add: styleCoherence_eq with_tags_def empty_outfit_def empty_tags_def
      checkStyleConflicts_sum coherence_of_values literal_values)

text \<open>
  C10 (as amended). For every outfit with non-empty tags.style, styleCoherence is one of the
  four doubles 0.8, 0.8 - 0.2 = 0.6000000000000001, 0.4 and
  0.8 - 3 * 0.2 = 0.19999999999999996; it is at least the last of them, which is positive.
  The table has exactly 3 pairs, so there are at most 3 conflicts, the penalty is at
  most 3 * 0.2, and the clamp to [0, 1] never changes the value.
\<close>

theorem styleCoherence_values:
  "style (tags outfit) \<noteq> [] \<Longrightarrow>
     (styleCoherence (analyzeOutfit lc outfit) = tenths 8
      \<or> styleCoherence (analyzeOutfit lc outfit) = fsub (tenths 8) (tenths 2)
      \<or> styleCoherence (analyzeOutfit lc outfit) = tenths 4
      \<or> styleCoherence (analyzeOutfit lc outfit) = fsub (tenths 8) (fmul 3 (tenths 2)))
   \<and> fsub (tenths 8) (fmul 3 (tenths 2)) \<le> styleCoherence (analyzeOutfit lc outfit)
   \<and> 0 < fsub (tenths 8) (fmul 3 (tenths 2))
   \<and> length style_conflicts = 3
   \<and> checkStyleConflicts (style (tags outfit)) \<le> 3
   \<and> fmul (of_nat (checkStyleConflicts (style (tags outfit)))) (tenths 2) \<le> fmul 3 (tenths 2)
   \<and> styleCoherence (analyzeOutfit lc outfit) =
       fsub (tenths 8) (fmul (of_nat (checkStyleConflicts (style (tags outfit)))) (tenths 2))"
proof -
  assume ne: "style (tags outfit) \<noteq> []"
  let ?c = "checkStyleConflicts (style (tags outfit))"
  have sc: "styleCoherence (analyzeOutfit lc outfit) = coherence_of ?c"
    using ne by (simp add: styleCoherence_eq)
  have le: "?c \<le> 3" by (rule checkStyleConflicts_le)
  note cs = coherence_of_cases[OF le]
  have v: "tenths 8 = coherence_of 0" "fsub (tenths 8) (tenths 2) = coherence_of (Suc 0)"
    "tenths 4 = coherence_of (Suc (Suc 0))"
    "fsub (tenths 8) (fmul 3 (tenths 2)) = coherence_of (Suc (Suc (Suc 0)))"
    "fsub (tenths 8) (tenths 2) = 1351079888211149 / 2251799813685248"
    by (simp_all add: coherence_of_values literal_values penalty_values) code_simp+
  have p: "fmul 0 (tenths 2) = 0" "fmul 1 (tenths 2) = 3602879701896397 / 18014398509481984"
    "fmul 2 (tenths 2) = 3602879701896397 / 9007199254740992"
    "fmul 3 (tenths 2) = 1351079888211149 / 2251799813685248"
    by code_simp+
  have 1: "styleCoherence (analyzeOutfit lc outfit) = tenths 8
      \<or> styleCoherence (analyzeOutfit lc outfit) = fsub (tenths 8) (tenths 2)
      \<or> styleCoherence (analyzeOutfit lc outfit) = tenths 4
      \<or> styleCoherence (analyzeOutfit lc outfit) = fsub (tenths 8) (fmul 3 (tenths 2))"
  proof -
    have "styleCoherence (analyzeOutfit lc outfit) = coherence_of 0
      \<or> styleCoherence (analyzeOutfit lc outfit) = coherence_of (Suc 0)
      \<or> styleCoherence (analyzeOutfit lc outfit) = coherence_of (Suc (Suc 0))
      \<or> styleCoherence (analyzeOutfit lc outfit) = coherence_of (Suc (Suc (Suc 0)))"
      using cs sc by auto
    then show ?thesis by (simp only: v(1-4) [symmetric])
  qed
  have 2: "fsub (tenths 8) (fmul 3 (tenths 2)) \<le> styleCoherence (analyzeOutfit lc outfit)"
    unfolding sc v(4) using cs by (auto simp add: coherence_of_values)
  have 3: "0 < fsub (tenths 8) (fmul 3 (tenths 2))"
    by (simp add: penalty_values)
  have 4: "length style_conflicts = 3" by (simp add: style_conflicts_def)
  have 5: "fmul (of_nat ?c) (tenths 2) \<le> fmul 3 (tenths 2)"
    using cs by (auto simp add: p)
  have 6: "styleCoherence (analyzeOutfit lc outfit) = fsub (tenths 8) (fmul (of_nat ?c) (tenths 2))"
    unfolding sc by (rule coherence_of_unclamped[OF le])
  from 1 2 3 4 le 5 6 show ?thesis by blast
qed

theorem styleCoherence_values_witness:
  "style (tags (with_tags all_styles [] [] [])) \<noteq> []
   \<and> styleCoherence (analyzeOutfit ascii_toLowerCase (with_tags all_styles [] [] []))
       = fsub (tenths 8) (fmul 3 (tenths 2))
   \<and> checkStyleConflicts (style (tags (with_tags all_styles [] [] []))) = 3"
  using styleCoherence_values [where lc = ascii_toLowerCase and outfit = "with_tags all_styles [] [] []"]
  by (simp add: with_tags_def empty_outfit_def empty_tags_def all_styles_def
      checkStyleConflicts_sum)

text \<open>
  The claim as stated fails for the outfit with all six style tags: the score is
  900719925474099 / 2^52, below the literal 0.2 and below the fraction 2/10, and it is none
  of 0.4, 0.6, 0.8.
\<close>

theorem styleCoherence_values_counterexample:
  "styleCoherence (analyzeOutfit ascii_toLowerCase (with_tags all_styles [] [] []))
     = 900719925474099 / 4503599627370496
   \<and> styleCoherence (analyzeOutfit ascii_toLowerCase (with_tags all_styles [] [] [])) < tenths 2
   \<and> styleCoherence (analyzeOutfit ascii_toLowerCase (with_tags all_styles [] [] [])) < 2 / 10
   \<and> styleCoherence (analyzeOutfit ascii_toLowerCase (with_tags all_styles [] [] [])) \<noteq> tenths 4
   \<and> styleCoherence (analyzeOutfit ascii_toLowerCase (with_tags all_styles [] [] [])) \<noteq> tenths 6
   \<and> styleCoherence (analyzeOutfit ascii_toLowerCase (with_tags all_styles [] [] [])) \<noteq> tenths 8"
  by (simp add: styleCoherence_eq with_tags_def empty_outfit_def empty_tags_def all_styles_def
      checkStyleConflicts_sum coherence_of_values literal_values)

section \<open>Color harmony\<close>

text \<open>
  \<^verbatim>\<open>includes\<close> on strings is the substring test; the harmony score stays between
  the literals 0.5 and 0.9 because rounding is monotone.
\<close>

lemma startsWith_iff: "startsWith s sub \<longleftrightarrow> (\<exists>q. s = sub @ q)"
  by (induction s sub rule: startsWith.induct) auto

lemma str_includes_iff: "str_includes s sub \<longleftrightarrow> (\<exists>p q. s = p @ sub @ q)"
proof (induction s)
  case Nil
  show ?case by (auto simp add: startsWith_iff)
next
  case (Cons d ds)
  show ?case
  proof
    assume "str_includes (d # ds) sub"
    then consider "startsWith (d # ds) sub" | "str_includes ds sub" by auto
    then show "\<exists>p q. d # ds = p @ sub @ q"
    proof cases
      case 1
      then obtain q where "d # ds = sub @ q" by (auto simp add: startsWith_iff)
      then have "d # ds = [] @ sub @ q" by simp
      then show ?thesis by blast
    next
      case 2
      with Cons.IH obtain p q where "ds = p @ sub @ q" by auto
      then have "d # ds = (d # p) @ sub @ q" by simp
      then show ?thesis by blast
    qed
  next
    assume "\<exists>p q. d # ds = p @ sub @ q"
    then obtain p q where e: "d # ds = p @ sub @ q" by auto
    show "str_includes (d # ds) sub"
    proof (cases p)
      case Nil
      with e have "startsWith (d # ds) sub" by (auto simp add: startsWith_iff)
      then show ?thesis by simp
    next
      case (Cons a p')
      with e have "ds = p' @ sub @ q" by simp
      with Cons.IH have "str_includes ds sub" by blast
      then show ?thesis by simp
    qed
  qed
qed

lemma is_neutral_iff:
  "is_neutral lc c \<longleftrightarrow> (\<exists>n \<in> set neutrals. \<exists>p q. lc c = p @ n @ q)"
  by (simp add: is_neutral_def list_ex_iff str_includes_iff)

lemma harmony_consts:
  "rnd 1 = 1"
  "rnd (tenths 4) = tenths 4"
  "rnd (tenths 5) = tenths 5"
  "rnd (tenths 5 + tenths 4) = tenths 9"
  "0 \<le> tenths 4"
  "0 \<le> tenths 5"
  by code_simp+

lemma harmony_bounds:
  assumes "k \<le> n" "0 < n"
  shows "tenths 5 \<le> fadd (tenths 5) (fmul (fdiv (of_nat k) (of_nat n)) (tenths 4))"
    and "fadd (tenths 5) (fmul (fdiv (of_nat k) (of_nat n)) (tenths 4)) \<le> tenths 9"
proof -
  let ?r = "fdiv (of_nat k) (of_nat n)"
  let ?p = "fmul ?r (tenths 4)"
  have q0: "(0::rat) \<le> of_nat k / of_nat n" by simp
  have q1: "(of_nat k :: rat) / of_nat n \<le> 1" using assms by simp
  have r0: "0 \<le> ?r" unfolding fdiv_def by (rule rnd_nonneg[OF q0])
  have r1: "?r \<le> 1" unfolding fdiv_def using rnd_mono[OF q0 q1] by (simp add: harmony_consts)
  have m0: "0 \<le> ?r * tenths 4" using r0 harmony_consts(5) by simp
  have m1: "?r * tenths 4 \<le> tenths 4"
    using mult_right_mono[OF r1 harmony_consts(5)] by simp
  have p0: "0 \<le> ?p" unfolding fmul_def by (rule rnd_nonneg[OF m0])
  have p1: "?p \<le> tenths 4" unfolding fmul_def using rnd_mono[OF m0 m1] by (simp add: harmony_consts)
  have s0: "tenths 5 \<le> tenths 5 + ?p" using p0 by simp
  have s1: "tenths 5 + ?p \<le> tenths 5 + tenths 4" using p1 by simp
  have s00: "0 \<le> tenths 5 + ?p" using p0 harmony_consts(6) by simp
  show "tenths 5 \<le> fadd (tenths 5) ?p"
    unfolding fadd_def using rnd_mono[OF harmony_consts(6) s0] by (simp add: harmony_consts)
  show "fadd (tenths 5) ?p \<le> tenths 9"
    unfolding fadd_def using rnd_mono[OF s00 s1] by (simp add: harmony_consts)
qed

lemma fmul_commute: "fmul a b = fmul b a"
  by (simp add: fmul_def mult.commute)

lemma harmony_examples:
  "fadd (tenths 5) (fmul (fdiv 2 2) (tenths 4)) = tenths 9"
  "fadd (tenths 5) (fmul (fdiv 1 2) (tenths 4)) = tenths 7"
  "tenths 5 \<le> tenths 9"
  by code_simp+

lemma ascii_examples:
  "is_ascii ''black''" "is_ascii ''navy''" "is_ascii ''red''"
  "ascii_toLowerCase ''black'' = ''black''" "ascii_toLowerCase ''navy'' = ''navy''"
  "ascii_toLowerCase ''red'' = ''red''"
  by code_simp+

lemma includes_examples:
  "list_ex (str_includes ''black'') neutrals" "list_ex (str_includes ''navy'') neutrals"
  "\<not> list_ex (str_includes ''red'') neutrals"
  by code_simp+

lemma is_neutral_examples:
  assumes "\<forall>s. is_ascii s \<longrightarrow> lc s = ascii_toLowerCase s"
  shows "is_neutral lc ''black''" "is_neutral lc ''navy''" "\<not> is_neutral lc ''red''"
proof -
  from assms have l: "lc ''black'' = ''black''" "lc ''navy'' = ''navy''" "lc ''red'' = ''red''"
    by (simp_all only: ascii_examples)
  show "is_neutral lc ''black''" "is_neutral lc ''navy''" "\<not> is_neutral lc ''red''"
    unfolding is_neutral_def l by (rule includes_examples)+
qed

lemma calculateColorHarmony_range:
  "tenths 5 \<le> calculateColorHarmony lc cs \<and> calculateColorHarmony lc cs \<le> tenths 9"
  proof (cases "length cs \<le> 1")
    case True
    then have "cs = [] \<or> length cs = 1" by (cases cs) auto
    then show ?thesis
      by (auto simp add: calculateColorHarmony_def harmony_examples)
  next
    case False
    then have n: "0 < length cs" by (cases cs) auto
    have k: "length (filter (is_neutral lc) cs) \<le> length cs" by simp
    from harmony_bounds[OF k n] False show ?thesis
      by (simp add: calculateColorHarmony_def Let_def)
  qed

text \<open>
  C2. For every outfit, colorHarmony is 0.5 when tags.colors is empty, 0.9 when it has
  exactly one color, and otherwise 0.5 + 0.4 * (k / n) in double arithmetic, where n is
  the number of colors and k the number of colors whose lower-cased text (by the
  \<^verbatim>\<open>toLowerCase\<close> of the platform, whatever it does outside ASCII) contains a
  member of the neutral set black, white, gray, navy, beige, brown as a substring. The
  result always lies between the literals 0.5 and 0.9. With a \<^verbatim>\<open>toLowerCase\<close>
  that acts on ASCII text as JavaScript's does, colors black, navy give exactly the
  literal 0.9 and colors red, navy exactly the literal 0.7.
\<close>

theorem colorHarmony_formula:
  "colorHarmony (analyzeOutfit lc outfit) =
     (if colors (tags outfit) = [] then tenths 5
      else if length (colors (tags outfit)) = 1 then tenths 9
      else fadd (tenths 5) (fmul (tenths 4)
             (fdiv (of_nat (length (filter
                       (\<lambda>c. \<exists>n \<in> set neutrals. \<exists>p q. lc c = p @ n @ q)
                       (colors (tags outfit)))))
                   (of_nat (length (colors (tags outfit)))))))
   \<and> tenths 5 \<le> colorHarmony (analyzeOutfit lc outfit)
   \<and> colorHarmony (analyzeOutfit lc outfit) \<le> tenths 9
   \<and> ((\<forall>s. is_ascii s \<longrightarrow> lc s = ascii_toLowerCase s) \<longrightarrow>
        (colors (tags outfit) = [''black'', ''navy''] \<longrightarrow>
           colorHarmony (analyzeOutfit lc outfit) = tenths 9)
      \<and> (colors (tags outfit) = [''red'', ''navy''] \<longrightarrow>
           colorHarmony (analyzeOutfit lc outfit) = tenths 7))"
proof -
  let ?cs = "colors (tags outfit)"
  have ch: "colorHarmony (analyzeOutfit lc outfit) = calculateColorHarmony lc ?cs"
    by (simp add: analyzeOutfit_def Let_def)
  have f: "filter (\<lambda>c. \<exists>n \<in> set neutrals. \<exists>p q. lc c = p @ n @ q) ?cs
             = filter (is_neutral lc) ?cs"
    by (rule filter_cong) (simp_all add: is_neutral_iff)
  have 1: "colorHarmony (analyzeOutfit lc outfit) =
     (if ?cs = [] then tenths 5
      else if length ?cs = 1 then tenths 9
      else fadd (tenths 5) (fmul (tenths 4)
             (fdiv (of_nat (length (filter
                       (\<lambda>c. \<exists>n \<in> set neutrals. \<exists>p q. lc c = p @ n @ q) ?cs)))
                   (of_nat (length ?cs)))))"
    unfolding ch f by (simp add: calculateColorHarmony_def Let_def fmul_commute)
  have 2: "tenths 5 \<le> calculateColorHarmony lc ?cs \<and> calculateColorHarmony lc ?cs \<le> tenths 9"
    by (rule calculateColorHarmony_range)
  have 3: "(\<forall>s. is_ascii s \<longrightarrow> lc s = ascii_toLowerCase s) \<longrightarrow>
        (?cs = [''black'', ''navy''] \<longrightarrow> colorHarmony (analyzeOutfit lc outfit) = tenths 9)
      \<and> (?cs = [''red'', ''navy''] \<longrightarrow> colorHarmony (analyzeOutfit lc outfit) = tenths 7)"
  proof
    assume a: "\<forall>s. is_ascii s \<longrightarrow> lc s = ascii_toLowerCase s"
    note n = is_neutral_examples [OF a]
    show "(?cs = [''black'', ''navy''] \<longrightarrow> colorHarmony (analyzeOutfit lc outfit) = tenths 9)
      \<and> (?cs = [''red'', ''navy''] \<longrightarrow> colorHarmony (analyzeOutfit lc outfit) = tenths 7)"
      unfolding ch
      by (simp add: calculateColorHarmony_def Let_def n harmony_examples)
  qed
  from 1 2 3 show ?thesis unfolding ch by blast
qed

text \<open>
  The witness takes \<open>ascii_toLowerCase\<close> for the platform's function. Its last line
  takes a function that also lower-cases the Kelvin sign U+212A, as JavaScript does: the
  color "blac" followed by that sign then counts as black.
\<close>

theorem colorHarmony_formula_witness:
  "colors (tags (with_tags [] [''black'', ''navy''] [] [])) = [''black'', ''navy'']
   \<and> colorHarmony (analyzeOutfit ascii_toLowerCase (with_tags [] [''black'', ''navy''] [] []))
       = tenths 9
   \<and> tenths 5 \<le> colorHarmony (analyzeOutfit ascii_toLowerCase (with_tags [] [''black'', ''navy''] [] []))
   \<and> colorHarmony (analyzeOutfit kelvin_toLowerCase
         (with_tags [] [''blac'' @ [CHR 0xE2, CHR 0x84, CHR 0xAA], ''red''] [] []))
       = fadd (tenths 5) (fmul (tenths 4) (fdiv 1 2))
   \<and> fadd (tenths 5) (fmul (tenths 4) (fdiv 1 2)) = tenths 7"
proof -
  have c: "colors (tags (with_tags [] [''black'', ''navy''] [] [])) = [''black'', ''navy'']"
    by (simp add: with_tags_def)
  have h: "\<forall>s. is_ascii s \<longrightarrow> ascii_toLowerCase s = ascii_toLowerCase s"
    by simp
  have k: "is_neutral kelvin_toLowerCase (''blac'' @ [CHR 0xE2, CHR 0x84, CHR 0xAA])"
    "\<not> is_neutral kelvin_toLowerCase ''red''"
    by code_simp+
  have d: "colorHarmony (analyzeOutfit kelvin_toLowerCase
         (with_tags [] [''blac'' @ [CHR 0xE2, CHR 0x84, CHR 0xAA], ''red''] [] []))
       = fadd (tenths 5) (fmul (tenths 4) (fdiv 1 2))"
    using k by (simp add: analyzeOutfit_def Let_def with_tags_def calculateColorHarmony_def
        fmul_commute)
  have e: "fadd (tenths 5) (fmul (tenths 4) (fdiv 1 2)) = tenths 7"
    by (simp only: fmul_commute [of "tenths 4"] harmony_examples)
  from colorHarmony_formula
    [where lc = ascii_toLowerCase and outfit = "with_tags [] [''black'', ''navy''] [] []"] c h d e
  show ?thesis by blast
qed

section \<open>Confidence factors\<close>

text \<open>
  What identifyConfidenceFactors computes: three tests by whole-string equality, each
  appending one fixed string, in a list that depends on outfit.tags alone.
\<close>

lemma identifyConfidenceFactors_computes:
  "confidenceFactors (analyzeOutfit lc outfit) = Some (
       (if ''classic'' \<in> set (style (tags outfit)) then [factor_classic] else [])
     @ (if ''navy'' \<in> set (colors (tags outfit)) \<or> ''black'' \<in> set (colors (tags outfit))
        then [factor_dark] else [])
     @ (if ''work'' \<in> set (occasion (tags outfit)) then [factor_work] else []))"
  by (auto simp add: analyzeOutfit_def identifyConfidenceFactors_def Let_def arr_includes_iff
      list_ex_iff)

text \<open>
  C3. The claim: the dark-colors factor is given when "navy" or "black" is present in
  tags.colors by case-insensitive substring match, so that "Navy" and "navy blue" receive
  it. The code tests \<^verbatim>\<open>['navy', 'black'].includes(color)\<close>, equality with one of the
  two names, where calculateColorHarmony matches the same color strings by
  \<^verbatim>\<open>toLowerCase\<close> and substring. For the colors "Navy" and "navy blue" the outfit
  gets no factor, although both contain "navy" case-insensitively and both count as
  neutral for the harmony score; only the exact color "navy" gets the factor.
\<close>

theorem confidenceFactors_exact_match:
  "confidenceFactors (analyzeOutfit ascii_toLowerCase (with_tags [] [''Navy'', ''navy blue''] [] []))
     = Some []
   \<and> str_includes (ascii_toLowerCase ''Navy'') ''navy''
   \<and> str_includes (ascii_toLowerCase ''navy blue'') ''navy''
   \<and> is_neutral ascii_toLowerCase ''Navy''
   \<and> is_neutral ascii_toLowerCase ''navy blue''
   \<and> confidenceFactors (analyzeOutfit ascii_toLowerCase (with_tags [] [''navy''] [] []))
     = Some [factor_dark]"
proof -
  have a: "confidenceFactors (analyzeOutfit ascii_toLowerCase (with_tags [] [''Navy'', ''navy blue''] [] []))
     = Some []"
    "confidenceFactors (analyzeOutfit ascii_toLowerCase (with_tags [] [''navy''] [] []))
     = Some [factor_dark]"
    by (simp_all add: identifyConfidenceFactors_computes with_tags_def)
  have b: "str_includes (ascii_toLowerCase ''Navy'') ''navy''"
    "str_includes (ascii_toLowerCase ''navy blue'') ''navy''"
    "is_neutral ascii_toLowerCase ''Navy''"
    "is_neutral ascii_toLowerCase ''navy blue''"
    by code_simp+
  from a b show ?thesis by blast
qed

section \<open>Summary\<close>

text \<open>
  C6. For every outfit, the summary of analyzeOutfit is selected by the mean
  (styleCoherence + colorHarmony + occasionAppropriateness) / 3 of the three returned
  scores, computed in double arithmetic, alone: it is the "excellent" message exactly when
  the mean is at least 0.8, the "good" message exactly when the mean is at least 0.6 and
  below 0.8, and the "needs adjustment" message exactly when the mean is below 0.6.
\<close>

theorem summary_by_mean:
  "summary (analyzeOutfit lc outfit) =
     (let a = analyzeOutfit lc outfit;
          m = fdiv (fadd (fadd (styleCoherence a) (colorHarmony a)) (occasionAppropriateness a)) 3
      in if tenths 8 \<le> m then msg_excellent
         else if tenths 6 \<le> m then msg_good else msg_adjust)
   \<and> (let a = analyzeOutfit lc outfit;
          m = fdiv (fadd (fadd (styleCoherence a) (colorHarmony a)) (occasionAppropriateness a)) 3
      in (summary a = msg_excellent \<longleftrightarrow> tenths 8 \<le> m)
       \<and> (summary a = msg_good \<longleftrightarrow> tenths 6 \<le> m \<and> m < tenths 8)
       \<and> (summary a = msg_adjust \<longleftrightarrow> m < tenths 6))"
proof -
  have d: "msg_excellent \<noteq> msg_good" "msg_excellent \<noteq> msg_adjust" "msg_good \<noteq> msg_adjust"
    by (simp_all add: msg_excellent_def msg_good_def msg_adjust_def)
  have l: "tenths 6 < tenths 8" by (simp add: literal_values)
  show ?thesis
    using d l by (auto simp add: analyzeOutfit_def generateAnalysisSummary_def Let_def)
qed

lemma coherence_of_0: "coherence_of 0 = tenths 8"
  by (simp add: coherence_of_values literal_values)

lemma unclamped_0: "max 0 (min 1 (fsub (tenths 8) (fmul 0 (tenths 2)))) = tenths 8"
  by code_simp

lemma summary_consts:
  "tenths 8 \<le> fdiv (fadd (fadd (tenths 8) (tenths 9)) (tenths 8)) 3"
  "tenths 6 \<le> fdiv (fadd (fadd (tenths 8) (tenths 5)) (tenths 5)) 3"
  "fdiv (fadd (fadd (tenths 8) (tenths 5)) (tenths 5)) 3 < tenths 8"
  "fdiv (fadd (fadd (tenths 5) (tenths 5)) (tenths 5)) 3 < tenths 6"
  "tenths 5 < tenths 6"
  "tenths 6 < tenths 8"
  by code_simp+

lemma example_scores:
  "styleCoherence (analyzeOutfit lc (with_tags [''classic''] cl oc ga)) = tenths 8"
  "colorHarmony (analyzeOutfit lc (with_tags st [''black''] oc ga)) = tenths 9"
  "colorHarmony (analyzeOutfit lc (with_tags st [] oc ga)) = tenths 5"
  "occasionAppropriateness (analyzeOutfit lc (with_tags st cl [''work''] ga)) = tenths 8"
  "occasionAppropriateness (analyzeOutfit lc (with_tags st cl [] ga)) = tenths 5"
  "styleCoherence (analyzeOutfit lc (with_tags [] cl oc ga)) = tenths 5"
  by (simp_all add: analyzeOutfit_def Let_def with_tags_def calculateStyleCoherence_def
      calculateColorHarmony_def calculateOccasionFit_def checkStyleConflicts_sum
      unclamped_0)

lemma empty_outfit_with_tags: "empty_outfit = with_tags [] [] [] []"
  by (simp add: with_tags_def empty_outfit_def empty_tags_def)

text \<open>Each of the three tiers is reached.\<close>

theorem summary_by_mean_witness:
  "summary (analyzeOutfit ascii_toLowerCase (with_tags [''classic''] [''black''] [''work''] [])) = msg_excellent
   \<and> summary (analyzeOutfit ascii_toLowerCase (with_tags [''classic''] [] [] [])) = msg_good
   \<and> summary (analyzeOutfit ascii_toLowerCase (with_tags [] [] [] [])) = msg_adjust"
proof -
  let ?m = "\<lambda>a. fdiv (fadd (fadd (styleCoherence a) (colorHarmony a)) (occasionAppropriateness a)) 3"
  have 1: "tenths 8 \<le> ?m (analyzeOutfit ascii_toLowerCase (with_tags [''classic''] [''black''] [''work''] []))"
    unfolding example_scores by (rule summary_consts)
  have 2: "tenths 6 \<le> ?m (analyzeOutfit ascii_toLowerCase (with_tags [''classic''] [] [] []))
           \<and> ?m (analyzeOutfit ascii_toLowerCase (with_tags [''classic''] [] [] [])) < tenths 8"
    unfolding example_scores by (intro conjI summary_consts)
  have 3: "?m (analyzeOutfit ascii_toLowerCase (with_tags [] [] [] [])) < tenths 6"
    unfolding example_scores by (rule summary_consts)
  from summary_by_mean [where lc = ascii_toLowerCase and outfit = "with_tags [''classic''] [''black''] [''work''] []"] 1
  have a: "summary (analyzeOutfit ascii_toLowerCase (with_tags [''classic''] [''black''] [''work''] [])) = msg_excellent"
    unfolding Let_def by blast
  from summary_by_mean [where lc = ascii_toLowerCase and outfit = "with_tags [''classic''] [] [] []"] 2
  have b: "summary (analyzeOutfit ascii_toLowerCase (with_tags [''classic''] [] [] [])) = msg_good"
    unfolding Let_def by blast
  from summary_by_mean [where lc = ascii_toLowerCase and outfit = "with_tags [] [] [] []"] 3
  have c: "summary (analyzeOutfit ascii_toLowerCase (with_tags [] [] [] [])) = msg_adjust"
    unfolding Let_def by blast
  from a b c show ?thesis by blast
qed

section \<open>Determinism and totality of the analysis\<close>

text \<open>
  C8. analyzeOutfit is a function of outfit.tags: any two outfits with equal tags get equal
  analyses (scores, summary, suggestedImprovements and confidenceFactors). The model of
  analyzeOutfit takes no state and returns none, so two calls on the same outfit are the
  same value.
\<close>

theorem analyzeOutfit_tags_only:
  "tags outfit = tags outfit' \<Longrightarrow> analyzeOutfit lc outfit = analyzeOutfit lc outfit'"
  by (simp add: analyzeOutfit_def calculateStyleCoherence_def calculateOccasionFit_def
      generateImprovements_def identifyConfidenceFactors_def)

theorem analyzeOutfit_tags_only_witness:
  "tags empty_outfit = tags (empty_outfit\<lparr>outfit_id := ''o2'', timestamp := 5,
       ratings := Some (rated 9 3 8), aiAnalysis := Some (analyzeOutfit ascii_toLowerCase empty_outfit)\<rparr>)
   \<and> analyzeOutfit ascii_toLowerCase empty_outfit = analyzeOutfit ascii_toLowerCase (empty_outfit\<lparr>outfit_id := ''o2'', timestamp := 5,
       ratings := Some (rated 9 3 8), aiAnalysis := Some (analyzeOutfit ascii_toLowerCase empty_outfit)\<rparr>)"
proof -
  have t: "tags empty_outfit = tags (empty_outfit\<lparr>outfit_id := ''o2'', timestamp := 5,
       ratings := Some (rated 9 3 8), aiAnalysis := Some (analyzeOutfit ascii_toLowerCase empty_outfit)\<rparr>)"
    by simp
  from analyzeOutfit_tags_only [where lc = ascii_toLowerCase, OF t] t show ?thesis by blast
qed

lemma scores_in_unit:
  "0 \<le> styleCoherence (analyzeOutfit lc outfit) \<and> styleCoherence (analyzeOutfit lc outfit) \<le> 1
   \<and> 0 \<le> colorHarmony (analyzeOutfit lc outfit) \<and> colorHarmony (analyzeOutfit lc outfit) \<le> 1
   \<and> 0 \<le> occasionAppropriateness (analyzeOutfit lc outfit)
   \<and> occasionAppropriateness (analyzeOutfit lc outfit) \<le> 1"
proof -
  have s: "0 \<le> styleCoherence (analyzeOutfit lc outfit)" "styleCoherence (analyzeOutfit lc outfit) \<le> 1"
    by (simp_all add: styleCoherence_eq coherence_of_def)
  have b: "0 \<le> tenths 5" "tenths 9 \<le> 1" "tenths 8 \<le> 1" "0 \<le> tenths 8" "tenths 5 \<le> 1"
    by (simp_all add: literal_values)
  have o: "0 \<le> occasionAppropriateness (analyzeOutfit lc outfit)"
    "occasionAppropriateness (analyzeOutfit lc outfit) \<le> 1"
    using b by (simp_all add: analyzeOutfit_def Let_def calculateOccasionFit_def)
  from calculateColorHarmony_range [where lc = lc and cs = "colors (tags outfit)"]
  have "tenths 5 \<le> colorHarmony (analyzeOutfit lc outfit)"
    "colorHarmony (analyzeOutfit lc outfit) \<le> tenths 9"
    by (simp_all add: analyzeOutfit_def Let_def)
  with b have c: "0 \<le> colorHarmony (analyzeOutfit lc outfit)" "colorHarmony (analyzeOutfit lc outfit) \<le> 1"
    by linarith+
  from s o c show ?thesis by blast
qed

lemma analyzeOutfit_typed_defaults:
  "analyzeOutfit lc (outfit\<lparr>tags := (tags outfit)\<lparr>formalityLevel := f, effortLevel := e\<rparr>\<rparr>)
     = analyzeOutfit lc outfit
   \<and> (style (tags outfit) = [] \<longrightarrow> styleCoherence (analyzeOutfit lc outfit) = tenths 5)
   \<and> (colors (tags outfit) = [] \<longrightarrow> colorHarmony (analyzeOutfit lc outfit) = tenths 5)
   \<and> (occasion (tags outfit) = [] \<longrightarrow> occasionAppropriateness (analyzeOutfit lc outfit) = tenths 5)
   \<and> (style (tags outfit) = [] \<and> colors (tags outfit) = [] \<and> occasion (tags outfit) = []
        \<and> garments (tags outfit) = [] \<longrightarrow>
        analyzeOutfit lc outfit =
          \<lparr> styleCoherence = tenths 5, colorHarmony = tenths 5,
            occasionAppropriateness = tenths 5, summary = msg_adjust,
            suggestedImprovements = Some [imp_style, imp_colors],
            confidenceFactors = Some [] \<rparr>)"
proof -
  have m: "\<not> tenths 8 \<le> fdiv (fadd (fadd (tenths 5) (tenths 5)) (tenths 5)) 3"
    "\<not> tenths 6 \<le> fdiv (fadd (fadd (tenths 5) (tenths 5)) (tenths 5)) 3"
    using summary_consts(4,6) by linarith+
  show ?thesis
    using m summary_consts(5)
    by (simp add: analyzeOutfit_def calculateStyleCoherence_def calculateOccasionFit_def
      calculateColorHarmony_def generateAnalysisSummary_def
      generateImprovements_def identifyConfidenceFactors_def arr_includes_def Let_def)
qed

lemma with_tags_sel:
  "style (tags (with_tags st cl oc ga)) = st" "colors (tags (with_tags st cl oc ga)) = cl"
  "occasion (tags (with_tags st cl oc ga)) = oc" "garments (tags (with_tags st cl oc ga)) = ga"
  by (simp_all add: with_tags_def)

text \<open>
  With the four arrays it reads present, the engine at run time computes what the typed
  functions compute; with one of them absent it raises.
\<close>

lemma analyzeOutfit_js_present:
  assumes "js_style (js_tags jo) = Some st" "js_colors (js_tags jo) = Some cl"
    "js_occasion (js_tags jo) = Some oc" "js_garments (js_tags jo) = Some ga"
  shows "analyzeOutfit_js lc jo = Inr (analyzeOutfit lc (with_tags st cl oc ga))"
  using assms
  by (simp add: analyzeOutfit_js_def calculateStyleCoherence_js_def calculateColorHarmony_js_def
      calculateOccasionFit_js_def generateImprovements_js_def identifyConfidenceFactors_js_def
      analyzeOutfit_def calculateStyleCoherence_def calculateOccasionFit_def
      generateImprovements_def identifyConfidenceFactors_def with_tags_sel Let_def)

lemma analyzeOutfit_js_raises:
  "analyzeOutfit_js lc jo = Inl TypeError \<longleftrightarrow>
     js_style (js_tags jo) = None \<or> js_colors (js_tags jo) = None
     \<or> js_occasion (js_tags jo) = None \<or> js_garments (js_tags jo) = None"
  by (simp add: analyzeOutfit_js_def calculateStyleCoherence_js_def calculateColorHarmony_js_def
      calculateOccasionFit_js_def generateImprovements_js_def identifyConfidenceFactors_js_def
      Let_def split: option.splits)

text \<open>
  C9 (as amended). analyzeOutfit returns an analysis, with every score in [0, 1], for
  every outfit whose tag arrays style, colors, occasion and garments are present, whatever
  the fields it does not read (season, mood, formalityLevel, effortLevel) are, present or
  absent; it raises a TypeError exactly when one of those four arrays is absent. An empty
  style, colors or occasion array gives the score 0.5 for that aspect. With all four
  arrays empty the analysis has the three scores 0.5, the "needs adjustment" summary, an
  empty factor list, and the two improvement suggestions that the scores 0.5 trigger (style
  below 0.6, color below 0.6).
\<close>

theorem analyzeOutfit_js_total:
  "(analyzeOutfit_js lc jo = Inl TypeError \<longleftrightarrow>
      js_style (js_tags jo) = None \<or> js_colors (js_tags jo) = None
      \<or> js_occasion (js_tags jo) = None \<or> js_garments (js_tags jo) = None)
   \<and> (js_style (js_tags jo) = Some st \<and> js_colors (js_tags jo) = Some cl
        \<and> js_occasion (js_tags jo) = Some oc \<and> js_garments (js_tags jo) = Some ga \<longrightarrow>
        analyzeOutfit_js lc jo = Inr (analyzeOutfit lc (with_tags st cl oc ga))
      \<and> analyzeOutfit_js lc (jo\<lparr>js_tags := (js_tags jo)\<lparr>js_season := se, js_mood := mo,
            js_formalityLevel := f, js_effortLevel := e\<rparr>\<rparr>) = analyzeOutfit_js lc jo
      \<and> 0 \<le> styleCoherence (analyzeOutfit lc (with_tags st cl oc ga))
      \<and> styleCoherence (analyzeOutfit lc (with_tags st cl oc ga)) \<le> 1
      \<and> 0 \<le> colorHarmony (analyzeOutfit lc (with_tags st cl oc ga))
      \<and> colorHarmony (analyzeOutfit lc (with_tags st cl oc ga)) \<le> 1
      \<and> 0 \<le> occasionAppropriateness (analyzeOutfit lc (with_tags st cl oc ga))
      \<and> occasionAppropriateness (analyzeOutfit lc (with_tags st cl oc ga)) \<le> 1
      \<and> (st = [] \<longrightarrow> styleCoherence (analyzeOutfit lc (with_tags st cl oc ga)) = tenths 5)
      \<and> (cl = [] \<longrightarrow> colorHarmony (analyzeOutfit lc (with_tags st cl oc ga)) = tenths 5)
      \<and> (oc = [] \<longrightarrow> occasionAppropriateness (analyzeOutfit lc (with_tags st cl oc ga)) = tenths 5)
      \<and> (st = [] \<and> cl = [] \<and> oc = [] \<and> ga = [] \<longrightarrow>
           analyzeOutfit_js lc jo =
             Inr \<lparr> styleCoherence = tenths 5, colorHarmony = tenths 5,
                   occasionAppropriateness = tenths 5, summary = msg_adjust,
                   suggestedImprovements = Some [imp_style, imp_colors],
                   confidenceFactors = Some [] \<rparr>))"
proof (intro conjI impI)
  show "analyzeOutfit_js lc jo = Inl TypeError \<longleftrightarrow>
      js_style (js_tags jo) = None \<or> js_colors (js_tags jo) = None
      \<or> js_occasion (js_tags jo) = None \<or> js_garments (js_tags jo) = None"
    by (rule analyzeOutfit_js_raises)
next
  let ?t = "with_tags st cl oc ga"
  let ?jo' = "jo\<lparr>js_tags := (js_tags jo)\<lparr>js_season := se, js_mood := mo,
            js_formalityLevel := f, js_effortLevel := e\<rparr>\<rparr>"
  assume p: "js_style (js_tags jo) = Some st \<and> js_colors (js_tags jo) = Some cl
        \<and> js_occasion (js_tags jo) = Some oc \<and> js_garments (js_tags jo) = Some ga"
  then have q: "js_style (js_tags jo) = Some st" "js_colors (js_tags jo) = Some cl"
    "js_occasion (js_tags jo) = Some oc" "js_garments (js_tags jo) = Some ga"
    by simp_all
  show r: "analyzeOutfit_js lc jo = Inr (analyzeOutfit lc ?t)"
    by (rule analyzeOutfit_js_present [OF q])
  have "analyzeOutfit_js lc ?jo' = Inr (analyzeOutfit lc ?t)"
    by (rule analyzeOutfit_js_present) (simp_all add: q)
  then show "analyzeOutfit_js lc ?jo' = analyzeOutfit_js lc jo"
    by (simp only: r)
  note u = scores_in_unit [where lc = lc and outfit = ?t]
  show "0 \<le> styleCoherence (analyzeOutfit lc ?t)" "styleCoherence (analyzeOutfit lc ?t) \<le> 1"
    "0 \<le> colorHarmony (analyzeOutfit lc ?t)" "colorHarmony (analyzeOutfit lc ?t) \<le> 1"
    "0 \<le> occasionAppropriateness (analyzeOutfit lc ?t)"
    "occasionAppropriateness (analyzeOutfit lc ?t) \<le> 1"
    using u by blast+
  note d = analyzeOutfit_typed_defaults [where lc = lc and outfit = ?t and f = None and e = None,
      unfolded with_tags_sel]
  show "styleCoherence (analyzeOutfit lc ?t) = tenths 5" if "st = []"
    using d that by blast
  show "colorHarmony (analyzeOutfit lc ?t) = tenths 5" if "cl = []"
    using d that by blast
  show "occasionAppropriateness (analyzeOutfit lc ?t) = tenths 5" if "oc = []"
    using d that by blast
  show "analyzeOutfit_js lc jo =
             Inr \<lparr> styleCoherence = tenths 5, colorHarmony = tenths 5,
                   occasionAppropriateness = tenths 5, summary = msg_adjust,
                   suggestedImprovements = Some [imp_style, imp_colors],
                   confidenceFactors = Some [] \<rparr>"
    if "st = [] \<and> cl = [] \<and> oc = [] \<and> ga = []"
    unfolding r using d that by blast
qed

lemma js_empty_outfit_arrays:
  "js_style (js_tags js_empty_outfit) = Some []" "js_colors (js_tags js_empty_outfit) = Some []"
  "js_occasion (js_tags js_empty_outfit) = Some []"
  "js_garments (js_tags js_empty_outfit) = Some []"
  by (simp_all add: js_empty_outfit_def js_empty_tags_def)

theorem analyzeOutfit_js_total_witness:
  "(js_style (js_tags js_empty_outfit) = Some [] \<and> js_colors (js_tags js_empty_outfit) = Some []
    \<and> js_occasion (js_tags js_empty_outfit) = Some []
    \<and> js_garments (js_tags js_empty_outfit) = Some [])
   \<and> analyzeOutfit_js ascii_toLowerCase js_empty_outfit =
         Inr \<lparr> styleCoherence = tenths 5, colorHarmony = tenths 5,
               occasionAppropriateness = tenths 5, summary = msg_adjust,
               suggestedImprovements = Some [imp_style, imp_colors],
               confidenceFactors = Some [] \<rparr>
   \<and> analyzeOutfit_js ascii_toLowerCase
        (js_empty_outfit\<lparr>js_tags := (js_tags js_empty_outfit)\<lparr>js_season := None, js_mood := None,
            js_formalityLevel := Some 7, js_effortLevel := Some high\<rparr>\<rparr>)
       = analyzeOutfit_js ascii_toLowerCase js_empty_outfit
   \<and> analyzeOutfit_js ascii_toLowerCase js_empty_outfit \<noteq> Inl TypeError"
proof -
  note a = js_empty_outfit_arrays
  note t = analyzeOutfit_js_total [where lc = ascii_toLowerCase and jo = js_empty_outfit
      and st = "[]" and cl = "[]" and oc = "[]" and ga = "[]"
      and se = None and mo = None and f = "Some 7" and e = "Some high"]
  from t a have n: "analyzeOutfit_js ascii_toLowerCase js_empty_outfit \<noteq> Inl TypeError"
    by simp
  from t a have r: "analyzeOutfit_js ascii_toLowerCase js_empty_outfit =
         Inr \<lparr> styleCoherence = tenths 5, colorHarmony = tenths 5,
               occasionAppropriateness = tenths 5, summary = msg_adjust,
               suggestedImprovements = Some [imp_style, imp_colors],
               confidenceFactors = Some [] \<rparr>
   \<and> analyzeOutfit_js ascii_toLowerCase
        (js_empty_outfit\<lparr>js_tags := (js_tags js_empty_outfit)\<lparr>js_season := None, js_mood := None,
            js_formalityLevel := Some 7, js_effortLevel := Some high\<rparr>\<rparr>)
       = analyzeOutfit_js ascii_toLowerCase js_empty_outfit"
    by blast
  from a n r show ?thesis by blast
qed

text \<open>
  The claim as stated fails twice. An outfit whose style array (or garments array) is
  absent raises a TypeError, it does not degrade to the neutral defaults. And the outfit
  with every array present and empty gets two improvement suggestions, not an empty list.
\<close>

theorem analyzeOutfit_js_total_counterexample:
  "analyzeOutfit_js ascii_toLowerCase
       (js_empty_outfit\<lparr>js_tags := js_empty_tags\<lparr>js_style := None\<rparr>\<rparr>) = Inl TypeError
   \<and> analyzeOutfit_js ascii_toLowerCase
       (js_empty_outfit\<lparr>js_tags := js_empty_tags\<lparr>js_garments := None\<rparr>\<rparr>) = Inl TypeError
   \<and> analyzeOutfit_js ascii_toLowerCase js_empty_outfit =
         Inr \<lparr> styleCoherence = tenths 5, colorHarmony = tenths 5,
               occasionAppropriateness = tenths 5, summary = msg_adjust,
               suggestedImprovements = Some [imp_style, imp_colors],
               confidenceFactors = Some [] \<rparr>
   \<and> Some [imp_style, imp_colors] \<noteq> Some []"
proof -
  have 1: "analyzeOutfit_js ascii_toLowerCase
       (js_empty_outfit\<lparr>js_tags := js_empty_tags\<lparr>js_style := None\<rparr>\<rparr>) = Inl TypeError"
    "analyzeOutfit_js ascii_toLowerCase
       (js_empty_outfit\<lparr>js_tags := js_empty_tags\<lparr>js_garments := None\<rparr>\<rparr>) = Inl TypeError"
    by (simp_all add: analyzeOutfit_js_raises)
  have "analyzeOutfit_js ascii_toLowerCase js_empty_outfit
          = Inr (analyzeOutfit ascii_toLowerCase (with_tags [] [] [] []))"
    by (rule analyzeOutfit_js_present [OF js_empty_outfit_arrays])
  moreover have "analyzeOutfit ascii_toLowerCase (with_tags [] [] [] []) =
          \<lparr> styleCoherence = tenths 5, colorHarmony = tenths 5,
            occasionAppropriateness = tenths 5, summary = msg_adjust,
            suggestedImprovements = Some [imp_style, imp_colors],
            confidenceFactors = Some [] \<rparr>"
    using analyzeOutfit_typed_defaults [where lc = ascii_toLowerCase
        and outfit = "with_tags [] [] [] []" and f = None and e = None]
    by (simp add: with_tags_sel)
  ultimately show ?thesis using 1 by simp
qed

section \<open>Recommendations: five, sorted\<close>

text \<open>
  The loop produces one recommendation per approach, with the reasoning of that approach;
  the context is never read. The sort keeps the elements and orders them by score, because
  the sign of the rounded difference of two scores is the sign of their difference.
\<close>

lemma single_reasoning:
  "reasoning (fst (generateSingleRecommendation ctx a w)) = generateRecommendationReasoning a ctx"
  by (simp add: generateSingleRecommendation_def Let_def split_def)

lemma reasoning_any_context:
  "generateRecommendationReasoning a ctx = generateRecommendationReasoning a ctx'"
  by (simp add: generateRecommendationReasoning_def)

lemma single_any_context:
  "generateSingleRecommendation ctx a w = generateSingleRecommendation ctx' a w"
  by (simp add: generateSingleRecommendation_def reasoning_any_context [of a ctx ctx'])

lemma loop_any_context:
  "recommend_loop ctx as recs w = recommend_loop ctx' as recs w"
  by (induction as arbitrary: recs w)
    (simp_all add: split_def single_any_context [of ctx _ _ ctx'])

lemma loop_reasoning:
  "map reasoning (fst (recommend_loop ctx as recs w))
     = map reasoning recs @ map (\<lambda>a. generateRecommendationReasoning a ctx) as"
  by (induction as arbitrary: recs w) (simp_all add: split_def Let_def single_reasoning)

lemma mset_sort_insert: "mset (sort_insert cmp x ys) = add_mset x (mset ys)"
  by (induction ys) simp_all

lemma mset_js_sort: "mset (js_sort cmp xs) = mset xs"
  by (induction xs) (simp_all add: js_sort_def mset_sort_insert)

lemma set_sort_insert: "set (sort_insert cmp x ys) = insert x (set ys)"
  by (induction ys) auto

lemma sorted_sort_insert:
  assumes c: "\<And>a b. cmp a b \<le> 0 \<longleftrightarrow> key b \<le> (key a :: rat)"
    and s: "sorted_wrt (\<lambda>a b. key b \<le> key a) ys"
  shows "sorted_wrt (\<lambda>a b. key b \<le> key a) (sort_insert cmp x ys)"
  using s
proof (induction ys)
  case Nil
  show ?case by simp
next
  case (Cons y ys)
  show ?case
  proof (cases "cmp x y \<le> 0")
    case True
    then have "key y \<le> key x" by (simp add: c)
    with Cons.prems show ?thesis using True by auto
  next
    case False
    then have "key x \<le> key y" by (simp add: c)
    with Cons show ?thesis using False by (auto simp add: set_sort_insert)
  qed
qed

lemma sorted_js_sort:
  assumes c: "\<And>a b. cmp a b \<le> 0 \<longleftrightarrow> key b \<le> (key a :: rat)"
  shows "sorted_wrt (\<lambda>a b. key b \<le> key a) (js_sort cmp xs)"
proof (induction xs)
  case Nil
  show ?case by (simp add: js_sort_def)
next
  case (Cons x xs)
  have "js_sort cmp (x # xs) = sort_insert cmp x (js_sort cmp xs)" by (simp add: js_sort_def)
  with sorted_sort_insert [of cmp key, OF c Cons] show ?case by simp
qed

lemma score_cmp: "fsub (score b) (score a) \<le> 0 \<longleftrightarrow> score b \<le> score a"
  by (simp add: fsub_def rnd_le_zero_iff)

lemma reasoning_table:
  "map (\<lambda>a. generateRecommendationReasoning a ctx) approaches = map snd reasoningMap"
  by (simp add: approaches_def generateRecommendationReasoning_def reasoningMap_def)

lemma recommendations_mset:
  "mset (fst (generateRecommendations ctx w)) = mset (fst (recommend_loop ctx approaches [] w))"
  by (simp add: generateRecommendations_def split_def Let_def mset_js_sort)

text \<open>
  C5. For every context (the empty object included) and every state of the random source
  and the clock, generateRecommendations returns exactly 5 recommendations: the loop
  builds one per strategy high_confidence_historical, weather_optimized, occasion_perfect,
  comfort_focused, style_exploration, in this order, each carrying the reasoning list of
  its strategy (five pairwise different lists of 3 fixed strings), and the result is that
  list sorted by score in descending order. The limit field, like every other field of
  the context, changes nothing.
\<close>

theorem generateRecommendations_five:
  "length (fst (generateRecommendations ctx w)) = 5
   \<and> map reasoning (fst (recommend_loop ctx approaches [] w))
        = map (\<lambda>a. generateRecommendationReasoning a ctx) approaches
   \<and> mset (fst (generateRecommendations ctx w)) = mset (fst (recommend_loop ctx approaches [] w))
   \<and> mset (map reasoning (fst (generateRecommendations ctx w))) = mset (map snd reasoningMap)
   \<and> distinct (map snd reasoningMap) \<and> map fst reasoningMap = approaches
   \<and> list_all (\<lambda>r. length (reasoning r) = 3) (fst (generateRecommendations ctx w))
   \<and> sorted_wrt (\<lambda>a b. score b \<le> score a) (fst (generateRecommendations ctx w))
   \<and> generateRecommendations (ctx\<lparr>rc_limit := l\<rparr>) w = generateRecommendations ctx w
   \<and> generateRecommendations empty_context w = generateRecommendations ctx w"
proof -
  let ?res = "fst (generateRecommendations ctx w)"
  let ?raw = "fst (recommend_loop ctx approaches [] w)"
  have m: "mset ?res = mset ?raw" by (rule recommendations_mset)
  have r: "map reasoning ?raw = map (\<lambda>a. generateRecommendationReasoning a ctx) approaches"
    using loop_reasoning [of ctx approaches "[]" w] by simp
  have mr: "mset (map reasoning ?res) = mset (map snd reasoningMap)"
  proof -
    have "mset (map reasoning ?res) = image_mset reasoning (mset ?res)" by simp
    also have "\<dots> = image_mset reasoning (mset ?raw)" by (simp only: m)
    also have "\<dots> = mset (map reasoning ?raw)" by simp
    finally show ?thesis by (simp only: r reasoning_table)
  qed
  have len: "length ?res = 5"
  proof -
    have "length ?res = size (mset (map reasoning ?res))" by simp
    also have "\<dots> = size (mset (map snd reasoningMap))" by (simp only: mr)
    also have "\<dots> = 5" by (simp add: reasoningMap_def)
    finally show ?thesis .
  qed
  have d: "distinct (map snd reasoningMap)" "map fst reasoningMap = approaches"
    by (simp_all add: reasoningMap_def approaches_def)
  have three: "list_all (\<lambda>r. length (reasoning r) = 3) ?res"
  proof -
    have "\<forall>x \<in> set (map snd reasoningMap). length x = 3" by (simp add: reasoningMap_def)
    then have "\<forall>x \<in> set_mset (mset (map reasoning ?res)). length x = 3" by (simp only: mr set_mset_mset)
    then show ?thesis by (simp add: list_all_iff)
  qed
  have srt: "sorted_wrt (\<lambda>a b. score b \<le> score a) ?res"
    unfolding generateRecommendations_def split_def Let_def fst_conv
    by (rule sorted_js_sort) (rule score_cmp)
  have lim: "generateRecommendations (ctx\<lparr>rc_limit := l\<rparr>) w = generateRecommendations ctx w"
    "generateRecommendations empty_context w = generateRecommendations ctx w"
    unfolding generateRecommendations_def
    by (simp_all only: loop_any_context [of "ctx\<lparr>rc_limit := l\<rparr>" approaches "[]" w ctx]
        loop_any_context [of empty_context approaches "[]" w ctx])
  from len r m mr d three srt lim show ?thesis by blast
qed


theorem generateRecommendations_five_witness:
  "length (fst (generateRecommendations empty_context sample_world)) = 5
   \<and> sorted_wrt (\<lambda>a b. score b \<le> score a) (fst (generateRecommendations empty_context sample_world))
   \<and> generateRecommendations (empty_context\<lparr>rc_limit := Some 3\<rparr>) sample_world
       = generateRecommendations empty_context sample_world"
  using generateRecommendations_five [of empty_context sample_world "Some 3"]
  by blast

end
